theory Spec2Isabelle
  imports Complex_Main "HOL-Library.Sublist"
begin

section \<open>Data model of \<^verbatim>\<open>sceptre_cdk_handler/cdk_builder.py\<close>\<close>

text \<open>
  The module defines three builders. \<^verbatim>\<open>BootstrappedCdkBuilder\<close> and its subclass
  \<^verbatim>\<open>BootstraplessCdkBuilder\<close> synthesize in process; \<^verbatim>\<open>NonPythonCdkBuilder\<close> shells
  out to \<^verbatim>\<open>npx cdk synth\<close>. Exceptions are values of \<open>error + 'a\<close> (\<open>Inl\<close> the
  exception); everything the code mutates or observes outside its arguments (dict
  objects, the file system, the subprocesses it has started) lives in a \<open>world\<close> that is
  passed through. Calls on the logger only write diagnostics and are left out.
\<close>

subsection \<open>Exceptions\<close>

datatype error =
    SceptreException string
  | TemplateHandlerArgumentsInvalidError string
  | TypeError string
  | AttributeError string
  | CalledProcessError int string
  | FileNotFoundError string
  | IsADirectoryError string
  | JSONDecodeError string
  | OtherError string

text \<open>Whether an outcome is the handler's invalid-arguments error.\<close>

fun is_arguments_invalid :: "error + 'a \<Rightarrow> bool" where
  "is_arguments_invalid (Inl (TemplateHandlerArgumentsInvalidError m)) = True"
| "is_arguments_invalid _ = False"

subsection \<open>Parsed JSON documents and Python truthiness\<close>

datatype json =
    JNull
  | JBool bool
  | JNumber rat
  | JString string
  | JArray "json list"
  | JObject "(string \<times> json) list"

text \<open>A Python dict keeps its keys in insertion order and has every key once.\<close>

definition is_dict :: "(string \<times> 'v) list \<Rightarrow> bool" where
  "is_dict kvs = distinct (map fst kvs)"

text \<open>What \<^verbatim>\<open>if x:\<close> tests.\<close>

fun truthy :: "json \<Rightarrow> bool" where
  "truthy JNull = False"
| "truthy (JBool b) = b"
| "truthy (JNumber n) = (n \<noteq> 0)"
| "truthy (JString s) = (s \<noteq> [])"
| "truthy (JArray xs) = (xs \<noteq> [])"
| "truthy (JObject kvs) = (kvs \<noteq> [])"

text \<open>\<^verbatim>\<open>d.get(k, default)\<close> on a dict.\<close>

definition dict_get :: "(string \<times> json) list \<Rightarrow> string \<Rightarrow> json \<Rightarrow> json" where
  "dict_get d k dflt = (case map_of d k of Some v \<Rightarrow> v | None \<Rightarrow> dflt)"

text \<open>\<^verbatim>\<open>list(x.keys())\<close>: only a dict has the method.\<close>

fun keys_list :: "json \<Rightarrow> error + string list" where
  "keys_list (JObject kvs) = Inr (map fst kvs)"
| "keys_list _ = Inl (AttributeError ''keys'')"

subsection \<open>Environment dicts on a heap, the file system, subprocesses\<close>

type_synonym env = "string \<rightharpoonup> string"

type_synonym ref = nat

datatype file_content = Document json | Malformed string

record filesystem =
  fs_dirs :: "string set"
  fs_files :: "string \<rightharpoonup> file_content"

text \<open>
  One invocation of \<^verbatim>\<open>subprocess.run(command, shell=True, check=True, stdout=sys.stderr,
  env=..., cwd=...)\<close>: the command line, the contents of the environment dict at the
  moment of the call, and the working directory when one is given.
\<close>

record call =
  command :: string
  call_env :: env
  cwd :: "string option"

text \<open>
  \<open>heap\<close> holds the dict objects that carry environment variables, a reference being
  an index; \<open>calls\<close> lists the subprocesses started so far, oldest first;
  \<open>mkdtemp\<close> is the operating system's choice of a temporary directory name and
  \<open>resolve\<close> is \<^verbatim>\<open>Path.resolve\<close>.
\<close>

record world =
  heap :: "env list"
  fs :: filesystem
  calls :: "call list"
  mkdtemp :: "filesystem \<Rightarrow> error + string"
  resolve :: "string \<Rightarrow> string"

definition dict_copy :: "ref \<Rightarrow> world \<Rightarrow> ref \<times> world" where
  "dict_copy r w = (length (heap w), w\<lparr>heap := heap w @ [heap w ! r]\<rparr>)"

definition dict_pop :: "ref \<Rightarrow> string \<Rightarrow> world \<Rightarrow> world" where
  "dict_pop r k w = w\<lparr>heap := (heap w)[r := (heap w ! r)(k := None)]\<rparr>"

definition dict_setitem :: "ref \<Rightarrow> string \<Rightarrow> string \<Rightarrow> world \<Rightarrow> world" where
  "dict_setitem r k v w = w\<lparr>heap := (heap w)[r := (heap w ! r)(k \<mapsto> v)]\<rparr>"

fun dict_update :: "ref \<Rightarrow> (string \<times> string) list \<Rightarrow> world \<Rightarrow> world" where
  "dict_update r [] w = w"
| "dict_update r ((k, v) # kvs) w = dict_update r kvs (dict_setitem r k v w)"

subsection \<open>The connection manager and the builders\<close>

record credentials =
  access_key :: string
  secret_key :: string
  token :: "string option"

record session =
  get_credentials :: "error + credentials"

record connection_manager =
  profile :: "string option"
  region :: string
  iam_role :: "string option"
  get_session :: "string option \<Rightarrow> string \<Rightarrow> string option \<Rightarrow> error + session"

text \<open>
  The three attributes that both \<^verbatim>\<open>BootstrappedCdkBuilder.__init__\<close> and
  \<^verbatim>\<open>NonPythonCdkBuilder.__init__\<close> set. The injected \<open>subprocess_run\<close> gives the exit
  status of the child and what the child did to the file system.
\<close>

record builder_fields =
  connection_manager :: connection_manager
  subprocess_run :: "call \<Rightarrow> filesystem \<Rightarrow> int \<times> filesystem"
  environment_variables :: ref

type_synonym non_python_cdk_builder = builder_fields

section \<open>In-process builders\<close>

subsection \<open>The toolchain's objects\<close>

text \<open>
  An asset manifest artifact exposes \<open>contents\<close> and \<open>file\<close>, the path of the
  manifest on disk. The members \<open>docker_images\<close> and \<open>files\<close> of the contents are
  optional in the toolchain's schema: each is a dict from asset identifiers to asset
  descriptors, or \<^verbatim>\<open>None\<close> when the manifest has no such member.
\<close>

record asset_manifest =
  docker_images :: "(string \<times> json) list option"
  files :: "(string \<times> json) list option"

record asset_manifest_artifact =
  contents :: asset_manifest
  "file" :: string

datatype artifact =
    AssetManifestArtifact asset_manifest_artifact
  | CloudFormationStackArtifact string json
  | OtherArtifact string

record cloud_assembly =
  artifacts :: "artifact list"

text \<open>
  \<^verbatim>\<open>cloud_assembly.get_stack_by_name(name).template\<close>: the toolchain raises unless
  exactly one stack artifact has the name.
\<close>

fun stack_templates :: "artifact list \<Rightarrow> string \<Rightarrow> json list" where
  "stack_templates [] name = []"
| "stack_templates (CloudFormationStackArtifact n t # rest) name =
     (if n = name then t # stack_templates rest name else stack_templates rest name)"
| "stack_templates (_ # rest) name = stack_templates rest name"

definition get_stack_by_name :: "cloud_assembly \<Rightarrow> string \<Rightarrow> error + json" where
  "get_stack_by_name ca name =
     (case stack_templates (artifacts ca) name of
        [] \<Rightarrow> Inl (OtherError ''Unable to find stack with stack name'')
      | [t] \<Rightarrow> Inr t
      | _ \<Rightarrow> Inl (OtherError ''There are multiple stacks with the stack name''))"

text \<open>
  An application object is known by what its \<^verbatim>\<open>synth()\<close> gives. The stack class is
  supplied by the caller: instantiating it in an application under an identifier, with
  the user data and possibly a synthesizer, gives the application with the stack added,
  or raises.
\<close>

datatype app = App (synth: "error + cloud_assembly")

type_synonym 'syn stack_class = "app \<Rightarrow> string \<Rightarrow> json \<Rightarrow> 'syn option \<Rightarrow> error + app"

record bootstrapped_cdk_builder = builder_fields +
  app_class :: "(string \<times> string) list option \<Rightarrow> error + app"

record 'syn bootstrapless_cdk_builder = bootstrapped_cdk_builder +
  synthesizer_config :: "(string \<times> json) list"
  synthesizer_class :: "(string \<times> json) list \<Rightarrow> error + 'syn"

subsection \<open>\<^verbatim>\<open>CdkBuilder\<close> and \<^verbatim>\<open>BootstrappedCdkBuilder\<close>\<close>

definition STACK_LOGICAL_ID :: string where
  "STACK_LOGICAL_ID = ''CDKStack''"

definition Bootstrapped_synthesize ::
  "'z bootstrapped_cdk_builder_scheme \<Rightarrow> 'syn stack_class \<Rightarrow> (string \<times> string) list option
     \<Rightarrow> json \<Rightarrow> error + cloud_assembly" where
  "Bootstrapped_synthesize self stack_class cdk_context sceptre_user_data =
     (case app_class self cdk_context of
        Inl e \<Rightarrow> Inl e
      | Inr app \<Rightarrow>
         (case stack_class app STACK_LOGICAL_ID sceptre_user_data None of
            Inl e \<Rightarrow> Inl e
          | Inr app' \<Rightarrow> synth app'))"

fun first_asset_manifest :: "artifact list \<Rightarrow> asset_manifest_artifact option" where
  "first_asset_manifest [] = None"
| "first_asset_manifest (AssetManifestArtifact a # rest) = Some a"
| "first_asset_manifest (_ # rest) = first_asset_manifest rest"

definition Bootstrapped_get_assets_manifest :: "cloud_assembly \<Rightarrow> error + asset_manifest_artifact" where
  "Bootstrapped_get_assets_manifest cloud_assembly =
     (case first_asset_manifest (artifacts cloud_assembly) of
        None \<Rightarrow> Inl (SceptreException ''CDK Asset manifest artifact not found'')
      | Some asset_artifacts \<Rightarrow> Inr asset_artifacts)"

text \<open>
  \<^verbatim>\<open>if manifest_contents.docker_images:\<close> is false for \<^verbatim>\<open>None\<close> and for the empty
  dict; \<^verbatim>\<open>manifest_contents.files.keys()\<close> raises \<^verbatim>\<open>AttributeError\<close> on
  \<^verbatim>\<open>None\<close>.
\<close>

definition Bootstrapped_only_asset_is_template :: "asset_manifest_artifact \<Rightarrow> error + bool" where
  "Bootstrapped_only_asset_is_template asset_artifacts =
     (let manifest_contents = contents asset_artifacts
      in if (case docker_images manifest_contents of None \<Rightarrow> False | Some imgs \<Rightarrow> imgs \<noteq> [])
         then Inr False
         else (case files manifest_contents of
                 None \<Rightarrow> Inl (AttributeError ''keys'')
               | Some fl \<Rightarrow>
                   (let keys = map fst fl;
                        expected_template = STACK_LOGICAL_ID @ ''.template.json''
                    in Inr (keys = [expected_template]))))"

definition Bootstrapped_get_template :: "cloud_assembly \<Rightarrow> error + json" where
  "Bootstrapped_get_template cloud_assembly = get_stack_by_name cloud_assembly STACK_LOGICAL_ID"

definition Bootstrapped_get_envs :: "'z bootstrapped_cdk_builder_scheme \<Rightarrow> world \<Rightarrow> (error + ref) \<times> world" where
  "Bootstrapped_get_envs self w =
     (let (envs, w1) = dict_copy (environment_variables self) w;
          w2 = dict_pop envs ''AWS_PROFILE'' w1;
          cm = connection_manager self
      in case get_session cm (profile cm) (region cm) (iam_role cm) of
           Inl e \<Rightarrow> (Inl e, w2)
         | Inr sess \<Rightarrow>
            (case get_credentials sess of
               Inl e \<Rightarrow> (Inl e, w2)
             | Inr credentials \<Rightarrow>
                (let w3 = dict_update envs
                       [(''AWS_ACCESS_KEY_ID'', access_key credentials),
                        (''AWS_SECRET_ACCESS_KEY'', secret_key credentials),
                        (''AWS_DEFAULT_REGION'', region cm),
                        (''CDK_DEFAULT_REGION'', region cm),
                        (''AWS_REGION'', region cm)] w2;
                     w4 = (case token credentials of
                             None \<Rightarrow> dict_pop envs ''AWS_SESSION_TOKEN'' w3
                           | Some t \<Rightarrow> dict_setitem envs ''AWS_SESSION_TOKEN'' t w3)
                 in (Inr envs, w4))))"

text \<open>
  \<^verbatim>\<open>subprocess.run(..., check=True)\<close>: the child runs, and a non-zero exit status
  raises \<^verbatim>\<open>CalledProcessError(returncode, cmd)\<close>.
\<close>

definition run_check ::
  "(call \<Rightarrow> filesystem \<Rightarrow> int \<times> filesystem) \<Rightarrow> call \<Rightarrow> world \<Rightarrow> (error + unit) \<times> world" where
  "run_check run c w =
     (let (returncode, f) = run c (fs w);
          w' = w\<lparr>fs := f, calls := calls w @ [c]\<rparr>
      in if returncode \<noteq> 0 then (Inl (CalledProcessError returncode (command c)), w')
         else (Inr (), w'))"

definition Bootstrapped_run_command ::
  "'z bootstrapped_cdk_builder_scheme \<Rightarrow> string \<Rightarrow> ref \<Rightarrow> world \<Rightarrow> (error + unit) \<times> world" where
  "Bootstrapped_run_command self cmd env w =
     run_check (subprocess_run self) \<lparr>command = cmd, call_env = heap w ! env, cwd = None\<rparr> w"

definition Bootstrapped_publish ::
  "'z bootstrapped_cdk_builder_scheme \<Rightarrow> cloud_assembly \<Rightarrow> world \<Rightarrow> (error + unit) \<times> world" where
  "Bootstrapped_publish self cloud_assembly w =
     (case Bootstrapped_get_assets_manifest cloud_assembly of
        Inl e \<Rightarrow> (Inl e, w)
      | Inr asset_artifacts \<Rightarrow>
         (case Bootstrapped_only_asset_is_template asset_artifacts of
            Inl e \<Rightarrow> (Inl e, w)
          | Inr True \<Rightarrow> (Inr (), w)
          | Inr False \<Rightarrow>
             (case Bootstrapped_get_envs self w of
                (Inl e, w1) \<Rightarrow> (Inl e, w1)
              | (Inr envs, w1) \<Rightarrow>
                  Bootstrapped_run_command self
                    (''npx cdk-assets -v publish --path '' @ file asset_artifacts) envs w1)))"

text \<open>
  \<^verbatim>\<open>build_template\<close> calls \<^verbatim>\<open>self._synthesize\<close>, which the subclass overrides; the
  method that the receiver's class selects is the first argument here.
\<close>

definition in_process_build_template ::
  "('b \<Rightarrow> 'syn stack_class \<Rightarrow> (string \<times> string) list option \<Rightarrow> json \<Rightarrow> error + cloud_assembly)
     \<Rightarrow> ('b \<Rightarrow> cloud_assembly \<Rightarrow> world \<Rightarrow> (error + unit) \<times> world)
     \<Rightarrow> 'b \<Rightarrow> 'syn stack_class \<Rightarrow> (string \<times> string) list option \<Rightarrow> json \<Rightarrow> world
     \<Rightarrow> (error + json) \<times> world" where
  "in_process_build_template synthesize publish self stack_class cdk_context sceptre_user_data w =
     (case synthesize self stack_class cdk_context sceptre_user_data of
        Inl e \<Rightarrow> (Inl e, w)
      | Inr assembly \<Rightarrow>
         (case publish self assembly w of
            (Inl e, w1) \<Rightarrow> (Inl e, w1)
          | (Inr u, w1) \<Rightarrow>
             (case Bootstrapped_get_template assembly of
                Inl e \<Rightarrow> (Inl e, w1)
              | Inr template \<Rightarrow> (Inr template, w1))))"

definition Bootstrapped_build_template ::
  "'z bootstrapped_cdk_builder_scheme \<Rightarrow> 'syn stack_class \<Rightarrow> (string \<times> string) list option
     \<Rightarrow> json \<Rightarrow> world \<Rightarrow> (error + json) \<times> world" where
  "Bootstrapped_build_template =
     in_process_build_template Bootstrapped_synthesize Bootstrapped_publish"

subsection \<open>\<^verbatim>\<open>BootstraplessCdkBuilder\<close>\<close>

definition Bootstrapless_synthesize ::
  "('syn, 'z) bootstrapless_cdk_builder_scheme \<Rightarrow> 'syn stack_class
     \<Rightarrow> (string \<times> string) list option \<Rightarrow> json \<Rightarrow> error + cloud_assembly" where
  "Bootstrapless_synthesize self stack_class cdk_context sceptre_user_data =
     (case app_class self cdk_context of
        Inl e \<Rightarrow> Inl e
      | Inr app \<Rightarrow>
         (case (case synthesizer_class self (synthesizer_config self) of
                  Inl (TypeError e) \<Rightarrow>
                    Inl (TemplateHandlerArgumentsInvalidError
                      (''Error encountered attempting to instantiate the BootstraplessSynthesizer with the ''
                       @ ''specified deployment config: '' @ e))
                | Inl e \<Rightarrow> Inl e
                | Inr s \<Rightarrow> Inr s) of
            Inl e \<Rightarrow> Inl e
          | Inr synthesizer \<Rightarrow>
             (case stack_class app STACK_LOGICAL_ID sceptre_user_data (Some synthesizer) of
                Inl e \<Rightarrow> Inl e
              | Inr app' \<Rightarrow> synth app')))"

definition Bootstrapless_build_template ::
  "('syn, 'z) bootstrapless_cdk_builder_scheme \<Rightarrow> 'syn stack_class
     \<Rightarrow> (string \<times> string) list option \<Rightarrow> json \<Rightarrow> world \<Rightarrow> (error + json) \<times> world" where
  "Bootstrapless_build_template =
     in_process_build_template Bootstrapless_synthesize Bootstrapped_publish"

section \<open>Out-of-process builder: \<^verbatim>\<open>NonPythonCdkBuilder\<close>\<close>

subsection \<open>Paths, files and the temporary directory\<close>

text \<open>
  Paths are the strings they print as, in the form \<^verbatim>\<open>pathlib\<close> gives them on POSIX:
  the root is \<^verbatim>\<open>/\<close>, or \<^verbatim>\<open>//\<close> for exactly two leading slashes, or empty; the
  components are what stands between slashes, without the empty ones and without
  \<^verbatim>\<open>.\<close>; a path with no root and no component prints as \<^verbatim>\<open>.\<close>.
  \<^verbatim>\<open>Path(a, b)\<close> is \<open>b\<close> alone when \<open>b\<close> is absolute, and otherwise the root of
  \<open>a\<close> with the components of both; \<^verbatim>\<open>p.parent\<close> drops the last component.
\<close>

fun split_slash :: "string \<Rightarrow> string \<Rightarrow> string list" where
  "split_slash acc [] = [acc]"
| "split_slash acc (c # cs) =
     (if c = CHR ''/'' then acc # split_slash [] cs else split_slash (acc @ [c]) cs)"

definition path_parts :: "string \<Rightarrow> string list" where
  "path_parts p = filter (\<lambda>x. x \<noteq> [] \<and> x \<noteq> ''.'') (split_slash [] p)"

definition path_root :: "string \<Rightarrow> string" where
  "path_root p =
     (if take 2 p = ''//'' \<and> take 3 p \<noteq> ''///'' then ''//''
      else if take 1 p = ''/'' then ''/''
      else [])"

fun join_slash :: "string list \<Rightarrow> string" where
  "join_slash [] = []"
| "join_slash [x] = x"
| "join_slash (x # y # rest) = x @ ''/'' @ join_slash (y # rest)"

definition path_str :: "string \<Rightarrow> string list \<Rightarrow> string" where
  "path_str rt ps = (if rt = [] \<and> ps = [] then ''.'' else rt @ join_slash ps)"

definition Path :: "string \<Rightarrow> string \<Rightarrow> string" where
  "Path a b =
     (if path_root b \<noteq> [] then path_str (path_root b) (path_parts b)
      else path_str (path_root a) (path_parts a @ path_parts b))"

definition path_parent :: "string \<Rightarrow> string" where
  "path_parent p = path_str (path_root p) (butlast (path_parts p))"

definition path_exists :: "filesystem \<Rightarrow> string \<Rightarrow> bool" where
  "path_exists f p = (p \<in> fs_dirs f \<or> fs_files f p \<noteq> None)"

definition open_read :: "filesystem \<Rightarrow> string \<Rightarrow> error + file_content" where
  "open_read f p =
     (if p \<in> fs_dirs f then Inl (IsADirectoryError p)
      else case fs_files f p of
             None \<Rightarrow> Inl (FileNotFoundError p)
           | Some c \<Rightarrow> Inr c)"

text \<open>A file is known by what \<^verbatim>\<open>json.load\<close> makes of it.\<close>

fun json_load :: "file_content \<Rightarrow> error + json" where
  "json_load (Document j) = Inr j"
| "json_load (Malformed m) = Inl (JSONDecodeError m)"

definition inside :: "string \<Rightarrow> string \<Rightarrow> bool" where
  "inside d p = (p = d \<or> prefix (d @ ''/'') p)"

definition make_dir :: "string \<Rightarrow> filesystem \<Rightarrow> filesystem" where
  "make_dir d f = f\<lparr>fs_dirs := insert d (fs_dirs f)\<rparr>"

definition rmtree :: "string \<Rightarrow> filesystem \<Rightarrow> filesystem" where
  "rmtree d f =
     f\<lparr>fs_dirs := {p \<in> fs_dirs f. \<not> inside d p},
       fs_files := (\<lambda>p. if inside d p then None else fs_files f p)\<rparr>"

text \<open>
  \<^verbatim>\<open>with TemporaryDirectory() as output_dir: body\<close>: the directory is created, the
  body runs, and the directory is removed with all it holds however the body ends.
\<close>

definition with_TemporaryDirectory ::
  "(string \<Rightarrow> world \<Rightarrow> (error + 'a) \<times> world) \<Rightarrow> world \<Rightarrow> (error + 'a) \<times> world" where
  "with_TemporaryDirectory body w =
     (case mkdtemp w (fs w) of
        Inl e \<Rightarrow> (Inl e, w)
      | Inr output_dir \<Rightarrow>
         (let (result, w') = body output_dir (w\<lparr>fs := make_dir output_dir (fs w)\<rparr>)
          in (result, w'\<lparr>fs := rmtree output_dir (fs w')\<rparr>)))"

subsection \<open>The methods\<close>

fun command_loop :: "string \<Rightarrow> (string \<times> string) list \<Rightarrow> string" where
  "command_loop cmd [] = cmd"
| "command_loop cmd ((key, val) # rest) = command_loop (cmd @ key @ ''='' @ val @ '' '') rest"

definition NonPython_create_command :: "string \<Rightarrow> (string \<times> string) list \<Rightarrow> string \<Rightarrow> string" where
  "NonPython_create_command output_dir cdk_context stack_logical_id =
     command_loop (''npx cdk synth '' @ stack_logical_id @ '' -o '' @ output_dir @ '' '') cdk_context"

definition NonPython_get_envs :: "non_python_cdk_builder \<Rightarrow> world \<Rightarrow> (error + ref) \<times> world" where
  "NonPython_get_envs self w =
     (let (envs, w1) = dict_copy (environment_variables self) w;
          w2 = dict_pop envs ''AWS_PROFILE'' w1;
          cm = connection_manager self
      in case get_session cm (profile cm) (region cm) (iam_role cm) of
           Inl e \<Rightarrow> (Inl e, w2)
         | Inr sess \<Rightarrow>
            (case get_credentials sess of
               Inl e \<Rightarrow> (Inl e, w2)
             | Inr credentials \<Rightarrow>
                (let w3 = dict_update envs
                       [(''AWS_ACCESS_KEY_ID'', access_key credentials),
                        (''AWS_SECRET_ACCESS_KEY'', secret_key credentials),
                        (''AWS_DEFAULT_REGION'', region cm),
                        (''CDK_DEFAULT_REGION'', region cm),
                        (''AWS_REGION'', region cm)] w2;
                     w4 = (case token credentials of
                             None \<Rightarrow> dict_pop envs ''AWS_SESSION_TOKEN'' w3
                           | Some t \<Rightarrow> dict_setitem envs ''AWS_SESSION_TOKEN'' t w3)
                 in (Inr envs, w4))))"

definition NonPython_synthesize ::
  "non_python_cdk_builder \<Rightarrow> string \<Rightarrow> string \<Rightarrow> (string \<times> string) list \<Rightarrow> string \<Rightarrow> world
     \<Rightarrow> (error + unit) \<times> world" where
  "NonPython_synthesize self cdk_json_path output_dir cdk_context stack_logical_id w =
     (case NonPython_get_envs self w of
        (Inl e, w1) \<Rightarrow> (Inl e, w1)
      | (Inr envs, w1) \<Rightarrow>
         (let cmd = NonPython_create_command output_dir cdk_context stack_logical_id
          in run_check (subprocess_run self)
               \<lparr>command = cmd, call_env = heap w1 ! envs,
                cwd = Some (resolve w1 (path_parent cdk_json_path))\<rparr> w1))"

definition NonPython_get_assets_manifest :: "string \<Rightarrow> world \<Rightarrow> error + json" where
  "NonPython_get_assets_manifest assets_filepath w =
     (if \<not> path_exists (fs w) assets_filepath
      then Inl (SceptreException ''CDK Asset manifest artifact not found'')
      else case open_read (fs w) assets_filepath of
             Inl e \<Rightarrow> Inl e
           | Inr f \<Rightarrow> json_load f)"

fun NonPython_only_asset_is_template :: "json \<Rightarrow> string \<Rightarrow> error + bool" where
  "NonPython_only_asset_is_template (JObject assets_dict) stack_logical_id =
     (if truthy (dict_get assets_dict ''dockerImages'' (JObject [])) then Inr False
      else case keys_list (dict_get assets_dict ''files'' (JObject [])) of
             Inl e \<Rightarrow> Inl e
           | Inr keys \<Rightarrow>
               (let expected_template = stack_logical_id @ ''.template.json''
                in Inr (keys = [expected_template])))"
| "NonPython_only_asset_is_template _ stack_logical_id = Inl (AttributeError ''get'')"

definition NonPython_get_template :: "string \<Rightarrow> world \<Rightarrow> error + json" where
  "NonPython_get_template template_path w =
     (case open_read (fs w) template_path of
        Inl e \<Rightarrow> Inl e
      | Inr f \<Rightarrow> json_load f)"

definition NonPython_publish ::
  "non_python_cdk_builder \<Rightarrow> string \<Rightarrow> string \<Rightarrow> world \<Rightarrow> (error + unit) \<times> world" where
  "NonPython_publish self assets_filepath stack_logical_id w =
     (case NonPython_get_assets_manifest assets_filepath w of
        Inl e \<Rightarrow> (Inl e, w)
      | Inr assets_manifest \<Rightarrow>
         (case NonPython_only_asset_is_template assets_manifest stack_logical_id of
            Inl e \<Rightarrow> (Inl e, w)
          | Inr True \<Rightarrow> (Inr (), w)
          | Inr False \<Rightarrow>
             (case NonPython_get_envs self w of
                (Inl e, w1) \<Rightarrow> (Inl e, w1)
              | (Inr envs, w1) \<Rightarrow>
                  run_check (subprocess_run self)
                    \<lparr>command = ''npx cdk-assets -v publish --path '' @ assets_filepath,
                     call_env = heap w1 ! envs, cwd = None\<rparr> w1)))"

definition NonPython_build_template_body ::
  "non_python_cdk_builder \<Rightarrow> string \<Rightarrow> (string \<times> string) list \<Rightarrow> string \<Rightarrow> string \<Rightarrow> world
     \<Rightarrow> (error + json) \<times> world" where
  "NonPython_build_template_body self cdk_json_path cdk_context stack_logical_id output_dir w =
     (case NonPython_synthesize self cdk_json_path output_dir cdk_context stack_logical_id w of
        (Inl e, w1) \<Rightarrow> (Inl e, w1)
      | (Inr u, w1) \<Rightarrow>
         (let assets_file = Path output_dir (stack_logical_id @ ''.assets.json'')
          in case NonPython_publish self assets_file stack_logical_id w1 of
               (Inl e, w2) \<Rightarrow> (Inl e, w2)
             | (Inr u', w2) \<Rightarrow>
                (let template_file = Path output_dir (stack_logical_id @ ''.template.json'')
                 in (NonPython_get_template template_file w2, w2))))"

definition NonPython_build_template ::
  "non_python_cdk_builder \<Rightarrow> string \<Rightarrow> (string \<times> string) list \<Rightarrow> string \<Rightarrow> world
     \<Rightarrow> (error + json) \<times> world" where
  "NonPython_build_template self cdk_json_path cdk_context stack_logical_id w =
     with_TemporaryDirectory
       (NonPython_build_template_body self cdk_json_path cdk_context stack_logical_id) w"

section \<open>Manifests read from disk\<close>

text \<open>
  The manifest that \<^verbatim>\<open>cdk synth\<close> writes is a JSON object whose optional members
  \<^verbatim>\<open>files\<close> and \<^verbatim>\<open>dockerImages\<close> are objects keyed by asset identifier.
  \<open>manifest_files\<close> and \<open>manifest_docker_images\<close> are the file assets and the
  container-image assets of such a document; \<open>manifest_shape\<close> says that a parsed
  document has this form.
\<close>

fun manifest_files :: "json \<Rightarrow> (string \<times> json) list" where
  "manifest_files (JObject d) = (case map_of d ''files'' of Some (JObject fl) \<Rightarrow> fl | _ \<Rightarrow> [])"
| "manifest_files _ = []"

fun manifest_docker_images :: "json \<Rightarrow> (string \<times> json) list" where
  "manifest_docker_images (JObject d) =
     (case map_of d ''dockerImages'' of Some (JObject imgs) \<Rightarrow> imgs | _ \<Rightarrow> [])"
| "manifest_docker_images _ = []"

fun is_object :: "json \<Rightarrow> bool" where
  "is_object (JObject d) = True"
| "is_object _ = False"

fun manifest_shape :: "json \<Rightarrow> bool" where
  "manifest_shape (JObject d) =
     ((case map_of d ''files'' of None \<Rightarrow> True | Some v \<Rightarrow> is_object v) \<and>
      (case map_of d ''dockerImages'' of None \<Rightarrow> True | Some v \<Rightarrow> is_object v) \<and>
      is_dict (manifest_files (JObject d)))"
| "manifest_shape _ = False"

section \<open>Example values\<close>

definition example_credentials :: "string option \<Rightarrow> credentials" where
  "example_credentials tok =
     \<lparr>access_key = ''AKIAEXAMPLE'', secret_key = ''wJalrEXAMPLEKEY'', token = tok\<rparr>"

definition example_connection_manager :: "string option \<Rightarrow> connection_manager" where
  "example_connection_manager tok =
     \<lparr>profile = Some ''dev'', region = ''eu-west-1'', iam_role = None,
      get_session = (\<lambda>p r i. Inr \<lparr>get_credentials = Inr (example_credentials tok)\<rparr>)\<rparr>"

definition example_env :: env where
  "example_env =
     [''AWS_PROFILE'' \<mapsto> ''dev'', ''AWS_SESSION_TOKEN'' \<mapsto> ''stale'', ''HOME'' \<mapsto> ''/root'']"

definition example_world :: world where
  "example_world =
     \<lparr>heap = [example_env],
      fs = \<lparr>fs_dirs = {''/tmp''}, fs_files = Map.empty\<rparr>,
      calls = [],
      mkdtemp = (\<lambda>f. Inr ''/tmp/tmpa1''),
      resolve = (\<lambda>p. p)\<rparr>"

text \<open>
  A stand-in for \<^verbatim>\<open>subprocess.run\<close>: \<^verbatim>\<open>npx cdk synth\<close> exits with the given
  status after writing the given files, every other command exits with 0.
\<close>

definition example_run ::
  "int \<Rightarrow> (string \<rightharpoonup> file_content) \<Rightarrow> call \<Rightarrow> filesystem \<Rightarrow> int \<times> filesystem" where
  "example_run rc out c f =
     (if take 13 (command c) = ''npx cdk synth'' then (rc, f\<lparr>fs_files := fs_files f ++ out\<rparr>)
      else (0, f))"

definition example_non_python ::
  "string option \<Rightarrow> int \<Rightarrow> (string \<rightharpoonup> file_content) \<Rightarrow> non_python_cdk_builder" where
  "example_non_python tok rc out =
     \<lparr>connection_manager = example_connection_manager tok,
      subprocess_run = example_run rc out,
      environment_variables = 0\<rparr>"

definition example_bootstrapped :: "string option \<Rightarrow> bootstrapped_cdk_builder" where
  "example_bootstrapped tok =
     \<lparr>connection_manager = example_connection_manager tok,
      subprocess_run = example_run 0 Map.empty,
      environment_variables = 0,
      app_class = (\<lambda>ctx. Inr (App (Inr \<lparr>artifacts = []\<rparr>)))\<rparr>"

definition example_manifest ::
  "(string \<times> json) list \<Rightarrow> (string \<times> json) list \<Rightarrow> asset_manifest_artifact" where
  "example_manifest fl imgs =
     \<lparr>contents = \<lparr>docker_images = Some imgs, files = Some fl\<rparr>,
      file = ''cdk.out/CDKStack.assets.json''\<rparr>"

text \<open>A manifest that has neither a \<^verbatim>\<open>files\<close> nor a \<^verbatim>\<open>dockerImages\<close> member.\<close>

definition example_manifest_without_members :: asset_manifest_artifact where
  "example_manifest_without_members =
     \<lparr>contents = \<lparr>docker_images = None, files = None\<rparr>,
      file = ''cdk.out/CDKStack.assets.json''\<rparr>"

definition example_manifest_document ::
  "(string \<times> json) list \<Rightarrow> (string \<times> json) list \<Rightarrow> json" where
  "example_manifest_document fl imgs =
     JObject [(''version'', JString ''21.0.0''), (''files'', JObject fl), (''dockerImages'', JObject imgs)]"

definition example_world2 :: world where
  "example_world2 =
     \<lparr>heap = [Map.empty, example_env],
      fs = \<lparr>fs_dirs = {}, fs_files = Map.empty\<rparr>,
      calls = [],
      mkdtemp = (\<lambda>f. Inl (OtherError ''No usable temporary directory'')),
      resolve = (\<lambda>p. p)\<rparr>"

definition example_template :: json where
  "example_template = JObject [(''Resources'', JObject [])]"

definition example_assembly :: "asset_manifest_artifact \<Rightarrow> cloud_assembly" where
  "example_assembly m =
     \<lparr>artifacts = [OtherArtifact ''Tree'', AssetManifestArtifact m,
                   CloudFormationStackArtifact ''CDKStack'' example_template]\<rparr>"


definition example_stack_class :: "cloud_assembly \<Rightarrow> string stack_class" where
  "example_stack_class assembly app sid ud syn =
     (if sid = ''CDKStack'' then Inr (App (Inr assembly))
      else Inl (OtherError ''unexpected construct id''))"

definition failing_stack_class :: "string stack_class" where
  "failing_stack_class app sid ud syn = Inl (OtherError ''stack constructor failed'')"

definition example_output :: "json \<Rightarrow> string \<rightharpoonup> file_content" where
  "example_output manifest =
     [''/tmp/tmpa1/MyStack.assets.json'' \<mapsto> Document manifest,
      ''/tmp/tmpa1/MyStack.template.json'' \<mapsto> Document example_template]"

definition lenient_stack_class :: "cloud_assembly \<Rightarrow> string stack_class" where
  "lenient_stack_class assembly app sid ud syn = Inr (App (Inr assembly))"

definition example_assembly_without_manifest :: cloud_assembly where
  "example_assembly_without_manifest =
     \<lparr>artifacts = [OtherArtifact ''Tree'', CloudFormationStackArtifact ''CDKStack'' example_template]\<rparr>"

definition typeerror_synthesizer_class :: "(string \<times> json) list \<Rightarrow> error + string" where
  "typeerror_synthesizer_class cfg =
     Inl (TypeError ''__init__() got an unexpected keyword argument bucket'')"

definition jsii_synthesizer_class :: "(string \<times> json) list \<Rightarrow> error + string" where
  "jsii_synthesizer_class cfg =
     Inl (OtherError ''JSIIError: Unable to deserialize value as array<string>'')"

definition example_bootstrapless ::
  "((string \<times> json) list \<Rightarrow> error + string) \<Rightarrow> string bootstrapless_cdk_builder" where
  "example_bootstrapless cls =
     \<lparr>connection_manager = example_connection_manager None,
      subprocess_run = example_run 0 Map.empty,
      environment_variables = 0,
      app_class = (\<lambda>ctx. Inr (App (Inr \<lparr>artifacts = []\<rparr>))),
      synthesizer_config = [(''file_asset_region_set'', JNumber 5)],
      synthesizer_class = cls\<rparr>"

definition accepting_synthesizer_class :: "(string \<times> json) list \<Rightarrow> error + string" where
  "accepting_synthesizer_class cfg = Inr ''synthesizer''"

section \<open>Unfolding rules for concrete runs\<close>

lemmas example_defs =
  example_credentials_def example_connection_manager_def example_env_def example_world_def
  example_run_def example_non_python_def example_bootstrapped_def example_manifest_def
  example_manifest_document_def example_assembly_def example_stack_class_def
  example_template_def example_output_def

lemmas model_defs =
  Bootstrapped_synthesize_def Bootstrapped_get_assets_manifest_def
  Bootstrapped_only_asset_is_template_def Bootstrapped_get_template_def get_stack_by_name_def
  Bootstrapped_publish_def Bootstrapped_run_command_def run_check_def STACK_LOGICAL_ID_def
  NonPython_create_command_def NonPython_synthesize_def NonPython_get_assets_manifest_def
  NonPython_get_template_def NonPython_publish_def Path_def path_parent_def path_parts_def
  path_root_def path_str_def path_exists_def
  open_read_def make_dir_def dict_get_def

lemmas get_envs_defs =
  Bootstrapped_get_envs_def NonPython_get_envs_def dict_copy_def dict_pop_def dict_setitem_def Let_def

section \<open>The only-template classification\<close>

lemma keys_singleton: "distinct ks \<Longrightarrow> (ks = [k]) = (set ks = {k})"
proof (cases ks)
  case Nil
  then show ?thesis by simp
next
  case (Cons a rest)
  assume d: "distinct ks"
  show ?thesis
  proof (cases rest)
    case Nil
    with Cons show ?thesis by auto
  next
    case (Cons b rest')
    with \<open>ks = a # rest\<close> d have "a \<noteq> b" by auto
    with Cons \<open>ks = a # rest\<close> show ?thesis by auto
  qed
qed

lemma Bootstrapped_only_asset_is_template_iff:
  "files (contents a) = Some fl \<Longrightarrow> is_dict fl \<Longrightarrow>
     Bootstrapped_only_asset_is_template a =
       Inr ((docker_images (contents a) = None \<or> docker_images (contents a) = Some []) \<and>
            set (map fst fl) = {STACK_LOGICAL_ID @ ''.template.json''})"
  by (cases "docker_images (contents a)")
     (simp_all add: Bootstrapped_only_asset_is_template_def is_dict_def keys_singleton Let_def)

lemma Bootstrapped_only_asset_is_template_images:
  "docker_images (contents a) = Some imgs \<Longrightarrow> imgs \<noteq> [] \<Longrightarrow>
     Bootstrapped_only_asset_is_template a = Inr False"
  by (simp add: Bootstrapped_only_asset_is_template_def)

lemma NonPython_only_asset_is_template_iff:
  "manifest_shape m \<Longrightarrow>
     NonPython_only_asset_is_template m sid =
       Inr (manifest_docker_images m = [] \<and>
            set (map fst (manifest_files m)) = {sid @ ''.template.json''})"
proof (cases m)
  case (JObject d)
  assume "manifest_shape m"
  with JObject have s: "manifest_shape (JObject d)" by simp
  show ?thesis
  proof (cases "map_of d ''dockerImages''")
    case None
    note img = this
    show ?thesis
    proof (cases "map_of d ''files''")
      case None
      with img JObject show ?thesis by (simp add: dict_get_def)
    next
      case (Some v)
      with s obtain fl where "v = JObject fl" by (cases v) auto
      with Some img JObject s show ?thesis
        by (simp add: dict_get_def is_dict_def keys_singleton)
    qed
  next
    case (Some i)
    with s obtain imgs where i: "i = JObject imgs" by (cases i) (auto split: option.splits)
    note img = Some
    show ?thesis
    proof (cases "map_of d ''files''")
      case None
      with img i JObject show ?thesis by (simp add: dict_get_def)
    next
      case (Some v)
      with s obtain fl where "v = JObject fl" by (cases v) (auto split: option.splits)
      with Some img i JObject s show ?thesis
        by (simp add: dict_get_def is_dict_def keys_singleton)
    qed
  qed
qed simp_all

text \<open>
  C1. The classification is to be false whenever the manifest has a container-image
  asset, otherwise true exactly when the file-asset keys are the singleton of
  \<^verbatim>\<open><stack logical id>.template.json\<close>, and so false for a manifest with no file
  asset and no image asset. The lemmas above give this for the out-of-process method on
  every document of the manifest's shape, and for the in-process method on every
  manifest that has a \<^verbatim>\<open>files\<close> member. The in-process method misses the manifest
  without that member: with no image asset either, it raises \<^verbatim>\<open>AttributeError\<close>, and
  so does the build, where the claim has the classification false. The same method on a
  manifest whose \<^verbatim>\<open>files\<close> is the empty dict, and the out-of-process method on a
  document without the member, give false.
\<close>

theorem only_asset_is_template_without_files:
  "Bootstrapped_only_asset_is_template example_manifest_without_members
     = Inl (AttributeError ''keys'') \<and>
   Bootstrapped_build_template (example_bootstrapped None)
     (example_stack_class (example_assembly example_manifest_without_members))
     None JNull example_world = (Inl (AttributeError ''keys''), example_world) \<and>
   Bootstrapped_only_asset_is_template (example_manifest [] []) = Inr False \<and>
   NonPython_only_asset_is_template (JObject [(''version'', JString ''21.0.0'')]) ''CDKStack''
     = Inr False"
  by (simp add: Bootstrapped_build_template_def in_process_build_template_def model_defs
        example_defs example_manifest_without_members_def)

section \<open>The credential environment\<close>

text \<open>
  C2. Whenever the connection manager's session resolves to credentials,
  \<^verbatim>\<open>_get_envs\<close> of either builder returns a dict that has no \<^verbatim>\<open>AWS_PROFILE\<close>, has
  \<^verbatim>\<open>AWS_ACCESS_KEY_ID\<close> and \<^verbatim>\<open>AWS_SECRET_ACCESS_KEY\<close> from the credentials, has
  \<^verbatim>\<open>AWS_DEFAULT_REGION\<close>, \<^verbatim>\<open>CDK_DEFAULT_REGION\<close> and \<^verbatim>\<open>AWS_REGION\<close> equal to the
  connection manager's region, and whose \<^verbatim>\<open>AWS_SESSION_TOKEN\<close> is exactly the
  credentials' token: the token when there is one, absent when there is none. This
  holds for every ambient environment and every world.
\<close>

theorem get_envs_resolved:
  assumes "get_session cm (profile cm) (region cm) (iam_role cm) = Inr s"
      and "get_credentials s = Inr c"
  shows "(connection_manager b = cm \<longrightarrow>
           (\<exists>r w'. Bootstrapped_get_envs b w = (Inr r, w') \<and>
             (heap w' ! r) ''AWS_PROFILE'' = None \<and>
             (heap w' ! r) ''AWS_ACCESS_KEY_ID'' = Some (access_key c) \<and>
             (heap w' ! r) ''AWS_SECRET_ACCESS_KEY'' = Some (secret_key c) \<and>
             (heap w' ! r) ''AWS_DEFAULT_REGION'' = Some (region cm) \<and>
             (heap w' ! r) ''CDK_DEFAULT_REGION'' = Some (region cm) \<and>
             (heap w' ! r) ''AWS_REGION'' = Some (region cm) \<and>
             (heap w' ! r) ''AWS_SESSION_TOKEN'' = token c)) \<and>
         (connection_manager n = cm \<longrightarrow>
           (\<exists>r w'. NonPython_get_envs n w = (Inr r, w') \<and>
             (heap w' ! r) ''AWS_PROFILE'' = None \<and>
             (heap w' ! r) ''AWS_ACCESS_KEY_ID'' = Some (access_key c) \<and>
             (heap w' ! r) ''AWS_SECRET_ACCESS_KEY'' = Some (secret_key c) \<and>
             (heap w' ! r) ''AWS_DEFAULT_REGION'' = Some (region cm) \<and>
             (heap w' ! r) ''CDK_DEFAULT_REGION'' = Some (region cm) \<and>
             (heap w' ! r) ''AWS_REGION'' = Some (region cm) \<and>
             (heap w' ! r) ''AWS_SESSION_TOKEN'' = token c))"
proof (intro conjI impI)
  assume "connection_manager b = cm"
  with assms show "\<exists>r w'. Bootstrapped_get_envs b w = (Inr r, w') \<and>
             (heap w' ! r) ''AWS_PROFILE'' = None \<and>
             (heap w' ! r) ''AWS_ACCESS_KEY_ID'' = Some (access_key c) \<and>
             (heap w' ! r) ''AWS_SECRET_ACCESS_KEY'' = Some (secret_key c) \<and>
             (heap w' ! r) ''AWS_DEFAULT_REGION'' = Some (region cm) \<and>
             (heap w' ! r) ''CDK_DEFAULT_REGION'' = Some (region cm) \<and>
             (heap w' ! r) ''AWS_REGION'' = Some (region cm) \<and>
             (heap w' ! r) ''AWS_SESSION_TOKEN'' = token c"
    by (simp add: Bootstrapped_get_envs_def dict_copy_def dict_pop_def dict_setitem_def Let_def
             split: option.splits)
next
  assume "connection_manager n = cm"
  with assms show "\<exists>r w'. NonPython_get_envs n w = (Inr r, w') \<and>
             (heap w' ! r) ''AWS_PROFILE'' = None \<and>
             (heap w' ! r) ''AWS_ACCESS_KEY_ID'' = Some (access_key c) \<and>
             (heap w' ! r) ''AWS_SECRET_ACCESS_KEY'' = Some (secret_key c) \<and>
             (heap w' ! r) ''AWS_DEFAULT_REGION'' = Some (region cm) \<and>
             (heap w' ! r) ''CDK_DEFAULT_REGION'' = Some (region cm) \<and>
             (heap w' ! r) ''AWS_REGION'' = Some (region cm) \<and>
             (heap w' ! r) ''AWS_SESSION_TOKEN'' = token c"
    by (simp add: NonPython_get_envs_def dict_copy_def dict_pop_def dict_setitem_def Let_def
             split: option.splits)
qed

theorem get_envs_resolved_witness:
  "(\<exists>r w'. Bootstrapped_get_envs (example_bootstrapped None) example_world = (Inr r, w') \<and>
      (heap w' ! r) ''AWS_PROFILE'' = None \<and>
      (heap w' ! r) ''AWS_ACCESS_KEY_ID'' = Some ''AKIAEXAMPLE'' \<and>
      (heap w' ! r) ''AWS_REGION'' = Some ''eu-west-1'' \<and>
      (heap w' ! r) ''AWS_SESSION_TOKEN'' = None) \<and>
   (\<exists>r w'. NonPython_get_envs (example_non_python (Some ''FwoGZXIvYXdz'') 0 Map.empty) example_world = (Inr r, w') \<and>
      (heap w' ! r) ''AWS_PROFILE'' = None \<and>
      (heap w' ! r) ''AWS_SECRET_ACCESS_KEY'' = Some ''wJalrEXAMPLEKEY'' \<and>
      (heap w' ! r) ''CDK_DEFAULT_REGION'' = Some ''eu-west-1'' \<and>
      (heap w' ! r) ''AWS_SESSION_TOKEN'' = Some ''FwoGZXIvYXdz'')"
proof -
  have s: "get_session (example_connection_manager tok) (profile (example_connection_manager tok))
     (region (example_connection_manager tok)) (iam_role (example_connection_manager tok))
   = Inr \<lparr>get_credentials = Inr (example_credentials tok)\<rparr>" for tok
    by (simp add: example_connection_manager_def)
  have c: "get_credentials \<lparr>get_credentials = Inr (example_credentials tok)\<rparr> = Inr (example_credentials tok)" for tok
    by simp
  have b: "connection_manager (example_bootstrapped None) = example_connection_manager None"
    by (simp add: example_bootstrapped_def)
  have n: "connection_manager (example_non_python (Some ''FwoGZXIvYXdz'') 0 Map.empty)
             = example_connection_manager (Some ''FwoGZXIvYXdz'')"
    by (simp add: example_non_python_def)
  from get_envs_resolved [OF s c, where b = "example_bootstrapped None" and w = example_world]
       get_envs_resolved [OF s c, where n = "example_non_python (Some ''FwoGZXIvYXdz'') 0 Map.empty" and w = example_world]
       b n
  show ?thesis
    by (simp add: example_credentials_def example_connection_manager_def) blast
qed

text \<open>
  C9. \<^verbatim>\<open>_get_envs\<close> does not change the ambient environment dict: the dict object
  that \<^verbatim>\<open>self._environment_variables\<close> refers to has the same contents after the call
  as before, on the success path and on the error paths, and the dict returned is a
  different object. The removal of \<^verbatim>\<open>AWS_PROFILE\<close> and the overwrites touch only the
  copy.
\<close>

theorem get_envs_leaves_ambient_unchanged:
  "(environment_variables b < length (heap w) \<longrightarrow>
      heap (snd (Bootstrapped_get_envs b w)) ! environment_variables b
        = heap w ! environment_variables b \<and>
      fst (Bootstrapped_get_envs b w) \<noteq> Inr (environment_variables b)) \<and>
   (environment_variables n < length (heap w) \<longrightarrow>
      heap (snd (NonPython_get_envs n w)) ! environment_variables n
        = heap w ! environment_variables n \<and>
      fst (NonPython_get_envs n w) \<noteq> Inr (environment_variables n))"
proof (intro conjI impI)
  assume "environment_variables b < length (heap w)"
  then show "heap (snd (Bootstrapped_get_envs b w)) ! environment_variables b
        = heap w ! environment_variables b"
    by (simp add: Bootstrapped_get_envs_def dict_copy_def dict_pop_def dict_setitem_def Let_def
          nth_append split: option.splits sum.splits)
next
  assume "environment_variables b < length (heap w)"
  then show "fst (Bootstrapped_get_envs b w) \<noteq> Inr (environment_variables b)"
    by (simp add: Bootstrapped_get_envs_def dict_copy_def dict_pop_def dict_setitem_def Let_def
          split: option.splits sum.splits)
next
  assume "environment_variables n < length (heap w)"
  then show "heap (snd (NonPython_get_envs n w)) ! environment_variables n
        = heap w ! environment_variables n"
    by (simp add: NonPython_get_envs_def dict_copy_def dict_pop_def dict_setitem_def Let_def
          nth_append split: option.splits sum.splits)
next
  assume "environment_variables n < length (heap w)"
  then show "fst (NonPython_get_envs n w) \<noteq> Inr (environment_variables n)"
    by (simp add: NonPython_get_envs_def dict_copy_def dict_pop_def dict_setitem_def Let_def
          split: option.splits sum.splits)
qed

theorem get_envs_leaves_ambient_unchanged_witness:
  "environment_variables (example_bootstrapped None) < length (heap example_world) \<and>
   environment_variables (example_non_python None 0 Map.empty) < length (heap example_world) \<and>
   heap (snd (Bootstrapped_get_envs (example_bootstrapped None) example_world)) ! 0 = example_env \<and>
   heap (snd (NonPython_get_envs (example_non_python None 0 Map.empty) example_world)) ! 0 = example_env \<and>
   example_env ''AWS_PROFILE'' = Some ''dev'' \<and>
   fst (Bootstrapped_get_envs (example_bootstrapped None) example_world) = Inr 1 \<and>
   fst (NonPython_get_envs (example_non_python None 0 Map.empty) example_world) = Inr 1"
proof -
  have b: "environment_variables (example_bootstrapped None) < length (heap example_world)"
    by (simp add: example_bootstrapped_def example_world_def)
  have n: "environment_variables (example_non_python None 0 Map.empty) < length (heap example_world)"
    by (simp add: example_non_python_def example_world_def)
  have r: "fst (Bootstrapped_get_envs (example_bootstrapped None) example_world) = Inr 1"
          "fst (NonPython_get_envs (example_non_python None 0 Map.empty) example_world) = Inr 1"
    by (simp_all add: Bootstrapped_get_envs_def NonPython_get_envs_def dict_copy_def
          example_bootstrapped_def example_non_python_def example_world_def
          example_connection_manager_def example_credentials_def Let_def)
  from b n r
    get_envs_leaves_ambient_unchanged
      [of "example_bootstrapped None" example_world "example_non_python None 0 Map.empty"]
  show ?thesis
    by (simp add: example_bootstrapped_def example_non_python_def example_world_def example_env_def)
qed

text \<open>
  C10. The two \<^verbatim>\<open>_get_envs\<close> methods agree. With the same connection manager and the
  same ambient dict object they return the same result and leave the same world; with
  the same connection manager and ambient dicts of equal contents, in whatever worlds,
  both fail with the same error or both return dicts of equal contents.
\<close>

theorem get_envs_equivalent:
  "(connection_manager b = connection_manager n \<and>
    environment_variables b = environment_variables n \<longrightarrow>
      Bootstrapped_get_envs b w = NonPython_get_envs n w) \<and>
   (connection_manager b = connection_manager n \<and>
    heap w ! environment_variables b = heap w' ! environment_variables n \<longrightarrow>
      (case (Bootstrapped_get_envs b w, NonPython_get_envs n w') of
         ((Inr r, u), (Inr r', u')) \<Rightarrow> heap u ! r = heap u' ! r'
       | ((Inl e, u), (Inl e', u')) \<Rightarrow> e = e'
       | _ \<Rightarrow> False))"
proof (intro conjI impI)
  assume "connection_manager b = connection_manager n \<and>
    environment_variables b = environment_variables n"
  then show "Bootstrapped_get_envs b w = NonPython_get_envs n w"
    by (simp add: Bootstrapped_get_envs_def NonPython_get_envs_def)
next
  assume "connection_manager b = connection_manager n \<and>
    heap w ! environment_variables b = heap w' ! environment_variables n"
  then show "case (Bootstrapped_get_envs b w, NonPython_get_envs n w') of
         ((Inr r, u), (Inr r', u')) \<Rightarrow> heap u ! r = heap u' ! r'
       | ((Inl e, u), (Inl e', u')) \<Rightarrow> e = e'
       | _ \<Rightarrow> False"
    by (simp add: Bootstrapped_get_envs_def NonPython_get_envs_def dict_copy_def dict_pop_def
          dict_setitem_def Let_def split: option.splits sum.splits)
qed

theorem get_envs_equivalent_witness:
  "Bootstrapped_get_envs (example_bootstrapped (Some ''tok'')) example_world
     = NonPython_get_envs (example_non_python (Some ''tok'') 0 Map.empty) example_world \<and>
   heap (snd (Bootstrapped_get_envs (example_bootstrapped (Some ''tok'')) example_world)) ! 1
     = heap (snd (NonPython_get_envs
          ((example_non_python (Some ''tok'') 0 Map.empty)\<lparr>environment_variables := 1\<rparr>) example_world2)) ! 2"
  using
    get_envs_equivalent [of "example_bootstrapped (Some ''tok'')"
      "example_non_python (Some ''tok'') 0 Map.empty" example_world]
    get_envs_equivalent [of "example_bootstrapped (Some ''tok'')"
      "(example_non_python (Some ''tok'') 0 Map.empty)\<lparr>environment_variables := 1\<rparr>"
      example_world example_world2]
  by (simp add: Bootstrapped_get_envs_def NonPython_get_envs_def dict_copy_def dict_pop_def
        dict_setitem_def Let_def
        example_bootstrapped_def example_non_python_def example_world_def example_world2_def
        example_connection_manager_def example_credentials_def)

section \<open>Publishing\<close>

lemma calls_run_check: "calls (snd (run_check run c w)) = calls w @ [c]"
  by (simp add: run_check_def Let_def split: prod.splits)



section \<open>The build as a whole\<close>

lemma in_process_build_template_success:
  "in_process_build_template synthesize publish b sc ctx ud w = (Inr t, w') \<longleftrightarrow>
     (\<exists>a. synthesize b sc ctx ud = Inr a \<and> publish b a w = (Inr (), w') \<and>
          Bootstrapped_get_template a = Inr t)"
  by (auto simp: in_process_build_template_def split: sum.splits prod.splits)

lemma in_process_build_template_failure:
  "(synthesize b sc ctx ud = Inl e \<longrightarrow>
      in_process_build_template synthesize publish b sc ctx ud w = (Inl e, w)) \<and>
   (synthesize b sc ctx ud = Inr a \<and> publish b a w = (Inl e, w1) \<longrightarrow>
      in_process_build_template synthesize publish b sc ctx ud w = (Inl e, w1)) \<and>
   (synthesize b sc ctx ud = Inr a \<and> publish b a w = (Inr (), w1) \<and>
    Bootstrapped_get_template a = Inl e \<longrightarrow>
      in_process_build_template synthesize publish b sc ctx ud w = (Inl e, w1))"
  by (auto simp: in_process_build_template_def split: sum.splits prod.splits)

lemma NonPython_body_success:
  "NonPython_build_template_body n p ctx sid d w0 = (Inr t, w2) \<longleftrightarrow>
     (\<exists>w1. NonPython_synthesize n p d ctx sid w0 = (Inr (), w1) \<and>
        NonPython_publish n (Path d (sid @ ''.assets.json'')) sid w1 = (Inr (), w2) \<and>
        NonPython_get_template (Path d (sid @ ''.template.json'')) w2 = Inr t)"
  by (auto simp: NonPython_build_template_body_def Let_def split: sum.splits prod.splits)

lemma NonPython_body_failure:
  "(NonPython_synthesize n p d ctx sid w0 = (Inl e, w1) \<longrightarrow>
      NonPython_build_template_body n p ctx sid d w0 = (Inl e, w1)) \<and>
   (NonPython_synthesize n p d ctx sid w0 = (Inr (), w1) \<and>
    NonPython_publish n (Path d (sid @ ''.assets.json'')) sid w1 = (Inl e, w2) \<longrightarrow>
      NonPython_build_template_body n p ctx sid d w0 = (Inl e, w2)) \<and>
   (NonPython_synthesize n p d ctx sid w0 = (Inr (), w1) \<and>
    NonPython_publish n (Path d (sid @ ''.assets.json'')) sid w1 = (Inr (), w2) \<and>
    NonPython_get_template (Path d (sid @ ''.template.json'')) w2 = Inl e \<longrightarrow>
      NonPython_build_template_body n p ctx sid d w0 = (Inl e, w2))"
  by (auto simp: NonPython_build_template_body_def Let_def split: sum.splits prod.splits)

lemma with_TemporaryDirectory_result:
  "mkdtemp w (fs w) = Inr d \<Longrightarrow> body d (w\<lparr>fs := make_dir d (fs w)\<rparr>) = (r, w') \<Longrightarrow>
     with_TemporaryDirectory body w = (r, w'\<lparr>fs := rmtree d (fs w')\<rparr>)"
  by (simp add: with_TemporaryDirectory_def)

lemma with_TemporaryDirectory_fst:
  "mkdtemp w (fs w) = Inr d \<Longrightarrow>
     fst (with_TemporaryDirectory body w) = fst (body d (w\<lparr>fs := make_dir d (fs w)\<rparr>))"
  by (simp add: with_TemporaryDirectory_def split: prod.splits)

lemma calls_NonPython_get_envs: "calls (snd (NonPython_get_envs n w)) = calls w"
  by (simp add: get_envs_defs split: option.splits sum.splits)

lemma synthesize_ok_calls:
  assumes "NonPython_synthesize n p d cx sid w = (Inr (), w1)"
  shows "\<exists>c. command c = NonPython_create_command d cx sid \<and> calls w1 = calls w @ [c]"
proof (cases "NonPython_get_envs n w")
  case (Pair r v)
  have cv: "calls v = calls w"
    using calls_NonPython_get_envs [of n w] Pair by simp
  show ?thesis
  proof (cases r)
    case (Inl e)
    with assms Pair show ?thesis by (simp add: NonPython_synthesize_def)
  next
    case (Inr envs)
    let ?c = "\<lparr>command = NonPython_create_command d cx sid, call_env = heap v ! envs,
               cwd = Some (resolve v (path_parent p))\<rparr>"
    from assms Pair Inr have "w1 = snd (run_check (subprocess_run n) ?c v)"
      by (simp add: NonPython_synthesize_def Let_def)
    then have "calls w1 = calls w @ [?c]"
      using cv by (simp add: calls_run_check)
    then show ?thesis by (intro exI [of _ ?c]) simp
  qed
qed

lemma publish_ok_calls:
  assumes "NonPython_publish n f sid w1 = (Inr (), w2)"
  shows "calls w2 = calls w1 \<or>
         (\<exists>c. command c = ''npx cdk-assets -v publish --path '' @ f \<and> calls w2 = calls w1 @ [c])"
proof (cases "NonPython_get_assets_manifest f w1")
  case (Inl e)
  with assms show ?thesis by (simp add: NonPython_publish_def)
next
  case (Inr j)
  note man = this
  show ?thesis
  proof (cases "NonPython_only_asset_is_template j sid")
    case (Inl e)
    with assms man show ?thesis by (simp add: NonPython_publish_def)
  next
    case (Inr only)
    show ?thesis
    proof (cases only)
      case True
      with assms man Inr show ?thesis by (simp add: NonPython_publish_def)
    next
      case False
      obtain r v where e: "NonPython_get_envs n w1 = (r, v)" by (cases "NonPython_get_envs n w1")
      have cv: "calls v = calls w1"
        using calls_NonPython_get_envs [of n w1] e by simp
      show ?thesis
      proof (cases r)
        case (Inl x)
        with assms man Inr False e show ?thesis by (simp add: NonPython_publish_def)
      next
        case (Inr envs)
        let ?c = "\<lparr>command = ''npx cdk-assets -v publish --path '' @ f,
                   call_env = heap v ! envs, cwd = None\<rparr>"
        from assms man \<open>NonPython_only_asset_is_template j sid = Inr only\<close> False e Inr
        have "w2 = snd (run_check (subprocess_run n) ?c v)"
          by (simp add: NonPython_publish_def)
        then have "calls w2 = calls w1 @ [?c]"
          using cv by (simp add: calls_run_check)
        then show ?thesis by (intro disjI2 exI [of _ ?c]) simp
      qed
    qed
  qed
qed

lemma NonPython_build_calls:
  assumes tmp: "mkdtemp w (fs w) = Inr d"
      and ok: "NonPython_build_template n p cx sid w = (Inr t, w')"
  shows "\<exists>c. command c = NonPython_create_command d cx sid \<and>
           (calls w' = calls w @ [c] \<or>
            (\<exists>c'. command c' = ''npx cdk-assets -v publish --path '' @ Path d (sid @ ''.assets.json'') \<and>
                  calls w' = calls w @ [c, c']))"
proof -
  let ?w0 = "w\<lparr>fs := make_dir d (fs w)\<rparr>"
  obtain r v2 where body: "NonPython_build_template_body n p cx sid d ?w0 = (r, v2)"
    by (cases "NonPython_build_template_body n p cx sid d ?w0")
  from tmp body ok have r: "r = Inr t" and w': "w' = v2\<lparr>fs := rmtree d (fs v2)\<rparr>"
    by (simp_all add: NonPython_build_template_def with_TemporaryDirectory_def)
  from body r obtain v1 where
    syn: "NonPython_synthesize n p d cx sid ?w0 = (Inr (), v1)" and
    pub: "NonPython_publish n (Path d (sid @ ''.assets.json'')) sid v1 = (Inr (), v2)"
    by (auto simp: NonPython_body_success)
  from synthesize_ok_calls [OF syn] obtain c where
    c: "command c = NonPython_create_command d cx sid" "calls v1 = calls w @ [c]"
    by auto
  from publish_ok_calls [OF pub] c w' show ?thesis
    by auto
qed

text \<open>
  C4. In every \<^verbatim>\<open>build_template\<close> the steps run in the order synthesize,
  publish-if-needed, extract: publishing runs in the world that synthesis leaves and on
  what synthesis produced, extraction on the world that publishing leaves. The template
  is returned exactly when all three steps succeed; when a step raises, the result is
  that step's error, unchanged, and no template. For the out-of-process builder the
  steps run inside the temporary directory \<open>d\<close>, which is removed from the world
  that is returned, and the order shows in the subprocesses started: a successful build
  has started the synth command and then, at most, the publish command.
\<close>

theorem build_template_sequencing:
  "(Bootstrapped_build_template b sc ctx ud w = (Inr t, w') \<longleftrightarrow>
      (\<exists>a. Bootstrapped_synthesize b sc ctx ud = Inr a \<and>
           Bootstrapped_publish b a w = (Inr (), w') \<and>
           Bootstrapped_get_template a = Inr t)) \<and>
   (Bootstrapped_synthesize b sc ctx ud = Inl e \<longrightarrow>
      Bootstrapped_build_template b sc ctx ud w = (Inl e, w)) \<and>
   (Bootstrapped_synthesize b sc ctx ud = Inr a \<and> Bootstrapped_publish b a w = (Inl e, w1) \<longrightarrow>
      Bootstrapped_build_template b sc ctx ud w = (Inl e, w1)) \<and>
   (Bootstrapped_synthesize b sc ctx ud = Inr a \<and> Bootstrapped_publish b a w = (Inr (), w1) \<and>
    Bootstrapped_get_template a = Inl e \<longrightarrow>
      Bootstrapped_build_template b sc ctx ud w = (Inl e, w1)) \<and>
   (Bootstrapless_build_template bl scl ctx ud w = (Inr t, w') \<longleftrightarrow>
      (\<exists>a. Bootstrapless_synthesize bl scl ctx ud = Inr a \<and>
           Bootstrapped_publish bl a w = (Inr (), w') \<and>
           Bootstrapped_get_template a = Inr t)) \<and>
   (Bootstrapless_synthesize bl scl ctx ud = Inl e \<longrightarrow>
      Bootstrapless_build_template bl scl ctx ud w = (Inl e, w)) \<and>
   (Bootstrapless_synthesize bl scl ctx ud = Inr a \<and> Bootstrapped_publish bl a w = (Inl e, w1) \<longrightarrow>
      Bootstrapless_build_template bl scl ctx ud w = (Inl e, w1)) \<and>
   (Bootstrapless_synthesize bl scl ctx ud = Inr a \<and> Bootstrapped_publish bl a w = (Inr (), w1) \<and>
    Bootstrapped_get_template a = Inl e \<longrightarrow>
      Bootstrapless_build_template bl scl ctx ud w = (Inl e, w1)) \<and>
   (mkdtemp w (fs w) = Inl e \<longrightarrow> NonPython_build_template n p cx sid w = (Inl e, w)) \<and>
   (mkdtemp w (fs w) = Inr d \<longrightarrow>
      (fst (NonPython_build_template n p cx sid w) = Inr t \<longleftrightarrow>
         (\<exists>v1 v2. NonPython_synthesize n p d cx sid (w\<lparr>fs := make_dir d (fs w)\<rparr>) = (Inr (), v1) \<and>
            NonPython_publish n (Path d (sid @ ''.assets.json'')) sid v1 = (Inr (), v2) \<and>
            NonPython_get_template (Path d (sid @ ''.template.json'')) v2 = Inr t))) \<and>
   (mkdtemp w (fs w) = Inr d \<and>
    NonPython_synthesize n p d cx sid (w\<lparr>fs := make_dir d (fs w)\<rparr>) = (Inl e, w1) \<longrightarrow>
      NonPython_build_template n p cx sid w = (Inl e, w1\<lparr>fs := rmtree d (fs w1)\<rparr>)) \<and>
   (mkdtemp w (fs w) = Inr d \<and>
    NonPython_synthesize n p d cx sid (w\<lparr>fs := make_dir d (fs w)\<rparr>) = (Inr (), w1) \<and>
    NonPython_publish n (Path d (sid @ ''.assets.json'')) sid w1 = (Inl e, w2) \<longrightarrow>
      NonPython_build_template n p cx sid w = (Inl e, w2\<lparr>fs := rmtree d (fs w2)\<rparr>)) \<and>
   (mkdtemp w (fs w) = Inr d \<and>
    NonPython_synthesize n p d cx sid (w\<lparr>fs := make_dir d (fs w)\<rparr>) = (Inr (), w1) \<and>
    NonPython_publish n (Path d (sid @ ''.assets.json'')) sid w1 = (Inr (), w2) \<and>
    NonPython_get_template (Path d (sid @ ''.template.json'')) w2 = Inl e \<longrightarrow>
      NonPython_build_template n p cx sid w = (Inl e, w2\<lparr>fs := rmtree d (fs w2)\<rparr>)) \<and>
   (mkdtemp w (fs w) = Inr d \<and> NonPython_build_template n p cx sid w = (Inr t, w') \<longrightarrow>
      (\<exists>c. command c = NonPython_create_command d cx sid \<and>
         (calls w' = calls w @ [c] \<or>
          (\<exists>c'. command c' =
                  ''npx cdk-assets -v publish --path '' @ Path d (sid @ ''.assets.json'') \<and>
                calls w' = calls w @ [c, c']))))"
proof -
  have order: "mkdtemp w (fs w) = Inr d \<and> NonPython_build_template n p cx sid w = (Inr t, w') \<longrightarrow>
      (\<exists>c. command c = NonPython_create_command d cx sid \<and>
         (calls w' = calls w @ [c] \<or>
          (\<exists>c'. command c' =
                  ''npx cdk-assets -v publish --path '' @ Path d (sid @ ''.assets.json'') \<and>
                calls w' = calls w @ [c, c'])))"
    using NonPython_build_calls by blast
  have np_ok: "fst (NonPython_build_template n p cx sid w) = Inr t \<longleftrightarrow>
         (\<exists>v1 v2. NonPython_synthesize n p d cx sid (w\<lparr>fs := make_dir d (fs w)\<rparr>) = (Inr (), v1) \<and>
            NonPython_publish n (Path d (sid @ ''.assets.json'')) sid v1 = (Inr (), v2) \<and>
            NonPython_get_template (Path d (sid @ ''.template.json'')) v2 = Inr t)"
    if "mkdtemp w (fs w) = Inr d"
  proof -
    let ?r = "NonPython_build_template_body n p cx sid d (w\<lparr>fs := make_dir d (fs w)\<rparr>)"
    have "fst (NonPython_build_template n p cx sid w) = fst ?r"
      using that by (simp add: NonPython_build_template_def with_TemporaryDirectory_fst)
    moreover have "fst ?r = Inr t \<longleftrightarrow> (\<exists>v2. ?r = (Inr t, v2))"
      by (cases ?r) simp
    ultimately show ?thesis
      by (simp add: NonPython_body_success) blast
  qed
  have np_err: "NonPython_build_template n p cx sid w = (Inl x, v\<lparr>fs := rmtree d (fs v)\<rparr>)"
    if "mkdtemp w (fs w) = Inr d"
      and "NonPython_build_template_body n p cx sid d (w\<lparr>fs := make_dir d (fs w)\<rparr>) = (Inl x, v)"
    for x v
    using that by (simp add: NonPython_build_template_def with_TemporaryDirectory_result)
  show ?thesis
    unfolding Bootstrapped_build_template_def Bootstrapless_build_template_def
    using in_process_build_template_failure [where synthesize = Bootstrapped_synthesize and publish = Bootstrapped_publish
        and b = b and sc = sc and ctx = ctx and ud = ud and e = e and w = w and a = a and ?w1.0 = w1]
      in_process_build_template_failure [where synthesize = Bootstrapless_synthesize and publish = Bootstrapped_publish
        and b = bl and sc = scl and ctx = ctx and ud = ud and e = e and w = w and a = a and ?w1.0 = w1]
      NonPython_body_failure [where n = n and p = p and d = d and ctx = cx and sid = sid
        and ?w0.0 = "w\<lparr>fs := make_dir d (fs w)\<rparr>" and e = e and ?w1.0 = w1 and ?w2.0 = w2]
    by (intro conjI order impI in_process_build_template_success np_ok np_err)
       (simp_all add: NonPython_build_template_def with_TemporaryDirectory_def)
qed

theorem build_template_sequencing_witness:
  "Bootstrapped_build_template (example_bootstrapped None)
     (example_stack_class (example_assembly (example_manifest [(''CDKStack.template.json'', JNull)] [])))
     None JNull example_world = (Inr example_template, example_world) \<and>
   Bootstrapped_build_template (example_bootstrapped None) failing_stack_class
     None JNull example_world = (Inl (OtherError ''stack constructor failed''), example_world) \<and>
   fst (NonPython_build_template
          (example_non_python None 0
             (example_output (example_manifest_document [(''MyStack.template.json'', JNull)] [])))
          ''app/cdk.json'' [(''stage'', ''dev'')] ''MyStack'' example_world) = Inr example_template \<and>
   fst (NonPython_build_template (example_non_python None 1 Map.empty)
          ''app/cdk.json'' [(''stage'', ''dev'')] ''MyStack'' example_world)
     = Inl (CalledProcessError 1 ''npx cdk synth MyStack -o /tmp/tmpa1 stage=dev '') \<and>
   map command (calls (snd (NonPython_build_template
          (example_non_python None 0
             (example_output (example_manifest_document
                [(''MyStack.template.json'', JNull), (''asset123.zip'', JNull)] [])))
          ''app/cdk.json'' [(''stage'', ''dev'')] ''MyStack'' example_world)))
     = [''npx cdk synth MyStack -o /tmp/tmpa1 stage=dev '',
        ''npx cdk-assets -v publish --path /tmp/tmpa1/MyStack.assets.json'']"
proof -
  let ?b = "example_bootstrapped None"
  let ?a = "example_assembly (example_manifest [(''CDKStack.template.json'', JNull)] [])"
  let ?n0 = "example_non_python None 0
             (example_output (example_manifest_document [(''MyStack.template.json'', JNull)] []))"
  let ?n1 = "example_non_python None 1 Map.empty"
  let ?w0 = "example_world\<lparr>fs := make_dir ''/tmp/tmpa1'' (fs example_world)\<rparr>"
  have syn: "Bootstrapped_synthesize ?b (example_stack_class ?a) None JNull = Inr ?a"
    by (simp add: model_defs example_defs)
  have pub: "Bootstrapped_publish ?b ?a example_world = (Inr (), example_world)"
    by (simp add: model_defs example_defs)
  have tpl: "Bootstrapped_get_template ?a = Inr example_template"
    by (simp add: model_defs example_defs)
  have s1: "Bootstrapped_build_template ?b (example_stack_class ?a) None JNull example_world
              = (Inr example_template, example_world)"
    using syn pub tpl
      build_template_sequencing [where b = ?b and sc = "example_stack_class ?a" and ctx = None
        and ud = JNull and w = example_world and t = example_template and w' = example_world,
        THEN conjunct1]
    by blast
  have syn_fail: "Bootstrapped_synthesize ?b failing_stack_class None JNull
                    = Inl (OtherError ''stack constructor failed'')"
    by (simp add: model_defs example_defs failing_stack_class_def)
  have s2: "Bootstrapped_build_template ?b failing_stack_class None JNull example_world
              = (Inl (OtherError ''stack constructor failed''), example_world)"
    using syn_fail
      build_template_sequencing [where b = ?b and sc = failing_stack_class and ctx = None
        and ud = JNull and w = example_world and e = "OtherError ''stack constructor failed''",
        THEN conjunct2, THEN conjunct1]
    by simp
  have tmp: "mkdtemp example_world (fs example_world) = Inr ''/tmp/tmpa1''"
    by (simp add: example_defs)
  have e0: "NonPython_get_envs ?n0 ?w0 = (Inr 1, snd (NonPython_get_envs ?n0 ?w0))"
    by (simp add: get_envs_defs example_defs)
  have syn0: "NonPython_synthesize ?n0 ''app/cdk.json'' ''/tmp/tmpa1'' [(''stage'', ''dev'')] ''MyStack'' ?w0
     = (Inr (), snd (NonPython_synthesize ?n0 ''app/cdk.json'' ''/tmp/tmpa1'' [(''stage'', ''dev'')] ''MyStack'' ?w0))"
    by (simp add: model_defs get_envs_defs example_defs)
  let ?v1 = "snd (NonPython_synthesize ?n0 ''app/cdk.json'' ''/tmp/tmpa1'' [(''stage'', ''dev'')] ''MyStack'' ?w0)"
  have pub0: "NonPython_publish ?n0 (Path ''/tmp/tmpa1'' (''MyStack'' @ ''.assets.json'')) ''MyStack'' ?v1
                = (Inr (), ?v1)"
    by (simp add: model_defs get_envs_defs example_defs)
  have tpl0: "NonPython_get_template (Path ''/tmp/tmpa1'' (''MyStack'' @ ''.template.json'')) ?v1
                = Inr example_template"
    by (simp add: model_defs get_envs_defs example_defs)
  have s3: "fst (NonPython_build_template ?n0 ''app/cdk.json'' [(''stage'', ''dev'')] ''MyStack'' example_world)
              = Inr example_template"
    using tmp syn0 pub0 tpl0
      build_template_sequencing [where n = ?n0 and p = "''app/cdk.json''" and cx = "[(''stage'', ''dev'')]"
        and sid = "''MyStack''" and w = example_world and d = "''/tmp/tmpa1''" and t = example_template,
        THEN conjunct2, THEN conjunct2, THEN conjunct2, THEN conjunct2, THEN conjunct2,
        THEN conjunct2, THEN conjunct2, THEN conjunct2, THEN conjunct2, THEN conjunct1]
    by blast
  let ?u1 = "snd (NonPython_synthesize ?n1 ''app/cdk.json'' ''/tmp/tmpa1'' [(''stage'', ''dev'')] ''MyStack'' ?w0)"
  have syn1: "NonPython_synthesize ?n1 ''app/cdk.json'' ''/tmp/tmpa1'' [(''stage'', ''dev'')] ''MyStack'' ?w0
     = (Inl (CalledProcessError 1 ''npx cdk synth MyStack -o /tmp/tmpa1 stage=dev ''), ?u1)"
    by (simp add: model_defs get_envs_defs example_defs)
  have s4: "fst (NonPython_build_template ?n1 ''app/cdk.json'' [(''stage'', ''dev'')] ''MyStack'' example_world)
              = Inl (CalledProcessError 1 ''npx cdk synth MyStack -o /tmp/tmpa1 stage=dev '')"
    using tmp syn1
      build_template_sequencing [where n = ?n1 and p = "''app/cdk.json''" and cx = "[(''stage'', ''dev'')]"
        and sid = "''MyStack''" and w = example_world and d = "''/tmp/tmpa1''" and ?w1.0 = ?u1
        and e = "CalledProcessError 1 ''npx cdk synth MyStack -o /tmp/tmpa1 stage=dev ''",
        THEN conjunct2, THEN conjunct2, THEN conjunct2, THEN conjunct2, THEN conjunct2,
        THEN conjunct2, THEN conjunct2, THEN conjunct2, THEN conjunct2, THEN conjunct2, THEN conjunct1]
    by simp
  have s5: "map command (calls (snd (NonPython_build_template
          (example_non_python None 0
             (example_output (example_manifest_document
                [(''MyStack.template.json'', JNull), (''asset123.zip'', JNull)] [])))
          ''app/cdk.json'' [(''stage'', ''dev'')] ''MyStack'' example_world)))
     = [''npx cdk synth MyStack -o /tmp/tmpa1 stage=dev '',
        ''npx cdk-assets -v publish --path /tmp/tmpa1/MyStack.assets.json'']"
    by (simp add: NonPython_build_template_def with_TemporaryDirectory_def
          NonPython_build_template_body_def model_defs get_envs_defs example_defs)
  from s1 s2 s3 s4 s5 show ?thesis by simp
qed

section \<open>A missing asset manifest\<close>

lemma first_asset_manifest_None:
  "(\<forall>m. AssetManifestArtifact m \<notin> set xs) \<Longrightarrow> first_asset_manifest xs = None"
  by (induction xs rule: first_asset_manifest.induct) auto

lemma no_manifest_artifact:
  "(\<forall>m. AssetManifestArtifact m \<notin> set (artifacts ca)) \<Longrightarrow>
     Bootstrapped_get_assets_manifest ca
       = Inl (SceptreException ''CDK Asset manifest artifact not found'')"
  by (simp add: Bootstrapped_get_assets_manifest_def first_asset_manifest_None)

lemma no_manifest_publish:
  "(\<forall>m. AssetManifestArtifact m \<notin> set (artifacts ca)) \<Longrightarrow>
     Bootstrapped_publish b ca w
       = (Inl (SceptreException ''CDK Asset manifest artifact not found''), w)"
  by (simp add: Bootstrapped_publish_def no_manifest_artifact)

lemma no_manifest_file:
  "\<not> path_exists (fs w) p \<Longrightarrow>
     NonPython_get_assets_manifest p w
       = Inl (SceptreException ''CDK Asset manifest artifact not found'')"
  by (simp add: NonPython_get_assets_manifest_def)

text \<open>
  C5. A missing asset manifest is fatal. In process: when no artifact of the cloud
  assembly is an asset-manifest artifact, \<^verbatim>\<open>_get_assets_manifest\<close> raises
  \<^verbatim>\<open>SceptreException\<close>, and a build whose synthesis produced that assembly ends
  with this error. Out of process: when nothing exists at the manifest path,
  \<^verbatim>\<open>_get_assets_manifest\<close> raises \<^verbatim>\<open>SceptreException\<close>, and a build whose synthesis
  succeeded without leaving a file at \<^verbatim>\<open>Path(output_dir, '<id>.assets.json')\<close> ends
  with this error.
\<close>

theorem missing_manifest_is_fatal:
  "((\<forall>m. AssetManifestArtifact m \<notin> set (artifacts ca)) \<longrightarrow>
      Bootstrapped_get_assets_manifest ca
        = Inl (SceptreException ''CDK Asset manifest artifact not found'')) \<and>
   ((\<forall>m. AssetManifestArtifact m \<notin> set (artifacts ca)) \<and>
    Bootstrapped_synthesize b sc ctx ud = Inr ca \<longrightarrow>
      Bootstrapped_build_template b sc ctx ud w
        = (Inl (SceptreException ''CDK Asset manifest artifact not found''), w)) \<and>
   ((\<forall>m. AssetManifestArtifact m \<notin> set (artifacts ca)) \<and>
    Bootstrapless_synthesize bl scl ctx ud = Inr ca \<longrightarrow>
      Bootstrapless_build_template bl scl ctx ud w
        = (Inl (SceptreException ''CDK Asset manifest artifact not found''), w)) \<and>
   (\<not> path_exists (fs w) f \<longrightarrow>
      NonPython_get_assets_manifest f w
        = Inl (SceptreException ''CDK Asset manifest artifact not found'')) \<and>
   (mkdtemp w (fs w) = Inr d \<and>
    NonPython_synthesize n p d cx sid (w\<lparr>fs := make_dir d (fs w)\<rparr>) = (Inr (), w1) \<and>
    \<not> path_exists (fs w1) (Path d (sid @ ''.assets.json'')) \<longrightarrow>
      NonPython_build_template n p cx sid w
        = (Inl (SceptreException ''CDK Asset manifest artifact not found''),
           w1\<lparr>fs := rmtree d (fs w1)\<rparr>))"
proof (intro conjI impI)
  show "Bootstrapped_get_assets_manifest ca
          = Inl (SceptreException ''CDK Asset manifest artifact not found'')"
    if "\<forall>m. AssetManifestArtifact m \<notin> set (artifacts ca)"
    using that by (rule no_manifest_artifact)
  show "Bootstrapped_build_template b sc ctx ud w
          = (Inl (SceptreException ''CDK Asset manifest artifact not found''), w)"
    if "(\<forall>m. AssetManifestArtifact m \<notin> set (artifacts ca)) \<and>
        Bootstrapped_synthesize b sc ctx ud = Inr ca"
    using that
    by (simp add: Bootstrapped_build_template_def in_process_build_template_def no_manifest_publish)
  show "Bootstrapless_build_template bl scl ctx ud w
          = (Inl (SceptreException ''CDK Asset manifest artifact not found''), w)"
    if "(\<forall>m. AssetManifestArtifact m \<notin> set (artifacts ca)) \<and>
        Bootstrapless_synthesize bl scl ctx ud = Inr ca"
    using that
    by (simp add: Bootstrapless_build_template_def in_process_build_template_def no_manifest_publish)
  show "NonPython_get_assets_manifest f w
          = Inl (SceptreException ''CDK Asset manifest artifact not found'')"
    if "\<not> path_exists (fs w) f"
    using that by (rule no_manifest_file)
  show "NonPython_build_template n p cx sid w
          = (Inl (SceptreException ''CDK Asset manifest artifact not found''),
             w1\<lparr>fs := rmtree d (fs w1)\<rparr>)"
    if "mkdtemp w (fs w) = Inr d \<and>
        NonPython_synthesize n p d cx sid (w\<lparr>fs := make_dir d (fs w)\<rparr>) = (Inr (), w1) \<and>
        \<not> path_exists (fs w1) (Path d (sid @ ''.assets.json''))"
    using that
    by (simp add: NonPython_build_template_def with_TemporaryDirectory_def
          NonPython_build_template_body_def NonPython_publish_def no_manifest_file)
qed

theorem missing_manifest_is_fatal_witness:
  "(\<forall>m. AssetManifestArtifact m \<notin> set (artifacts example_assembly_without_manifest)) \<and>
   Bootstrapped_build_template (example_bootstrapped None)
     (example_stack_class example_assembly_without_manifest) None JNull example_world
     = (Inl (SceptreException ''CDK Asset manifest artifact not found''), example_world) \<and>
   \<not> path_exists (fs example_world) ''/tmp/out/CDKStack.assets.json'' \<and>
   NonPython_get_assets_manifest ''/tmp/out/CDKStack.assets.json'' example_world
     = Inl (SceptreException ''CDK Asset manifest artifact not found'') \<and>
   fst (NonPython_build_template (example_non_python None 0 Map.empty)
          ''app/cdk.json'' [] ''MyStack'' example_world)
     = Inl (SceptreException ''CDK Asset manifest artifact not found'')"
proof -
  let ?b = "example_bootstrapped None"
  let ?a = example_assembly_without_manifest
  let ?n = "example_non_python None 0 Map.empty"
  let ?w0 = "example_world\<lparr>fs := make_dir ''/tmp/tmpa1'' (fs example_world)\<rparr>"
  let ?w1 = "snd (NonPython_synthesize ?n ''app/cdk.json'' ''/tmp/tmpa1'' [] ''MyStack'' ?w0)"
  have none: "\<forall>m. AssetManifestArtifact m \<notin> set (artifacts ?a)"
    by (simp add: example_assembly_without_manifest_def)
  have syn: "Bootstrapped_synthesize ?b (example_stack_class ?a) None JNull = Inr ?a"
    by (simp add: model_defs example_defs)
  have s1: "Bootstrapped_build_template ?b (example_stack_class ?a) None JNull example_world
     = (Inl (SceptreException ''CDK Asset manifest artifact not found''), example_world)"
    using none syn
      missing_manifest_is_fatal [where ca = ?a and b = ?b and sc = "example_stack_class ?a"
        and ctx = None and ud = JNull and w = example_world, THEN conjunct2, THEN conjunct1]
    by simp
  have absent: "\<not> path_exists (fs example_world) ''/tmp/out/CDKStack.assets.json''"
    by (simp add: path_exists_def example_defs)
  have s2: "NonPython_get_assets_manifest ''/tmp/out/CDKStack.assets.json'' example_world
     = Inl (SceptreException ''CDK Asset manifest artifact not found'')"
    using absent
      missing_manifest_is_fatal [where w = example_world and f = "''/tmp/out/CDKStack.assets.json''",
        THEN conjunct2, THEN conjunct2, THEN conjunct2, THEN conjunct1]
    by simp
  have tmp: "mkdtemp example_world (fs example_world) = Inr ''/tmp/tmpa1''"
    by (simp add: example_defs)
  have syn_np: "NonPython_synthesize ?n ''app/cdk.json'' ''/tmp/tmpa1'' [] ''MyStack'' ?w0 = (Inr (), ?w1)"
    by (simp add: model_defs get_envs_defs example_defs)
  have absent_np: "\<not> path_exists (fs ?w1) (Path ''/tmp/tmpa1'' (''MyStack'' @ ''.assets.json''))"
    by (simp add: model_defs get_envs_defs example_defs)
  have s3: "fst (NonPython_build_template ?n ''app/cdk.json'' [] ''MyStack'' example_world)
     = Inl (SceptreException ''CDK Asset manifest artifact not found'')"
    using tmp syn_np absent_np
      missing_manifest_is_fatal [where w = example_world and d = "''/tmp/tmpa1''" and n = ?n
        and p = "''app/cdk.json''" and cx = "[]" and sid = "''MyStack''" and ?w1.0 = ?w1,
        THEN conjunct2, THEN conjunct2, THEN conjunct2, THEN conjunct2]
    by simp
  from none s1 absent s2 s3 show ?thesis by simp
qed

section \<open>The temporary output directory\<close>

text \<open>
  C6. Whatever happens inside \<^verbatim>\<open>NonPythonCdkBuilder.build_template\<close>, on normal
  return and on every propagated error, the temporary output directory and everything
  inside it no longer exist in the world the call returns. When no temporary directory
  could be created the call fails with the world untouched.
\<close>

theorem temporary_directory_removed:
  "(mkdtemp w (fs w) = Inr d \<longrightarrow>
      \<not> path_exists (fs (snd (NonPython_build_template n p cx sid w))) d \<and>
      (\<forall>q. inside d q \<longrightarrow> \<not> path_exists (fs (snd (NonPython_build_template n p cx sid w))) q)) \<and>
   (mkdtemp w (fs w) = Inl e \<longrightarrow> NonPython_build_template n p cx sid w = (Inl e, w))"
  by (simp add: NonPython_build_template_def with_TemporaryDirectory_def path_exists_def
        rmtree_def inside_def split: prod.splits)

theorem temporary_directory_removed_witness:
  "mkdtemp example_world (fs example_world) = Inr ''/tmp/tmpa1'' \<and>
   \<not> path_exists
       (fs (snd (NonPython_build_template (example_non_python None 1 Map.empty)
                   ''app/cdk.json'' [] ''MyStack'' example_world))) ''/tmp/tmpa1'' \<and>
   inside ''/tmp/tmpa1'' ''/tmp/tmpa1/MyStack.template.json'' \<and>
   \<not> path_exists
       (fs (snd (NonPython_build_template
                   (example_non_python None 0
                      (example_output (example_manifest_document [(''MyStack.template.json'', JNull)] [])))
                   ''app/cdk.json'' [] ''MyStack'' example_world)))
       ''/tmp/tmpa1/MyStack.template.json'' \<and>
   fst (NonPython_build_template (example_non_python None 1 Map.empty)
          ''app/cdk.json'' [] ''MyStack'' example_world)
     = Inl (CalledProcessError 1 ''npx cdk synth MyStack -o /tmp/tmpa1 '')"
proof -
  have failed: "fst (NonPython_build_template (example_non_python None 1 Map.empty)
          ''app/cdk.json'' [] ''MyStack'' example_world)
     = Inl (CalledProcessError 1 ''npx cdk synth MyStack -o /tmp/tmpa1 '')"
    by (simp add: NonPython_build_template_def with_TemporaryDirectory_def
          NonPython_build_template_body_def model_defs get_envs_defs example_defs)
  have tmp: "mkdtemp example_world (fs example_world) = Inr ''/tmp/tmpa1''"
    by (simp add: example_defs)
  have ins: "inside ''/tmp/tmpa1'' ''/tmp/tmpa1/MyStack.template.json''"
    by (simp add: inside_def)
  from tmp ins failed
    temporary_directory_removed [where w = example_world and d = "''/tmp/tmpa1''"
      and n = "example_non_python None 1 Map.empty" and p = "''app/cdk.json''" and cx = "[]"
      and sid = "''MyStack''", THEN conjunct1]
    temporary_directory_removed [where w = example_world and d = "''/tmp/tmpa1''"
      and n = "example_non_python None 0
                 (example_output (example_manifest_document [(''MyStack.template.json'', JNull)] []))"
      and p = "''app/cdk.json''" and cx = "[]" and sid = "''MyStack''", THEN conjunct1]
  show ?thesis by blast
qed

section \<open>Invalid synthesizer configuration\<close>

text \<open>
  C7, as stated, fails: a synthesizer configuration that the synthesizer class
  rejects with an exception other than \<^verbatim>\<open>TypeError\<close> makes the build fail with that
  exception, not with the invalid-arguments error.
\<close>

theorem bootstrapless_invalid_configuration_counterexample:
  "synthesizer_class (example_bootstrapless jsii_synthesizer_class)
     (synthesizer_config (example_bootstrapless jsii_synthesizer_class))
   = Inl (OtherError ''JSIIError: Unable to deserialize value as array<string>'') \<and>
   Bootstrapless_build_template (example_bootstrapless jsii_synthesizer_class)
     (example_stack_class (example_assembly (example_manifest [] []))) None JNull example_world
   = (Inl (OtherError ''JSIIError: Unable to deserialize value as array<string>''), example_world) \<and>
   \<not> is_arguments_invalid
       (fst (Bootstrapless_build_template (example_bootstrapless jsii_synthesizer_class)
          (example_stack_class (example_assembly (example_manifest [] []))) None JNull example_world))"
  by (simp add: Bootstrapless_build_template_def in_process_build_template_def
        Bootstrapless_synthesize_def example_bootstrapless_def jsii_synthesizer_class_def)

text \<open>
  C7, amended. Once the application object is constructed, a synthesizer
  configuration on which the synthesizer class raises \<^verbatim>\<open>TypeError\<close> makes the build
  fail with \<^verbatim>\<open>TemplateHandlerArgumentsInvalidError\<close>, carrying the message of the
  \<^verbatim>\<open>TypeError\<close>; any other exception of the synthesizer class is propagated
  unchanged. In both cases the world is as before: no subprocess has been started.
\<close>

theorem bootstrapless_invalid_arguments:
  "(app_class b ctx = Inr a \<and> synthesizer_class b (synthesizer_config b) = Inl (TypeError m) \<longrightarrow>
      Bootstrapless_build_template b sc ctx ud w =
        (Inl (TemplateHandlerArgumentsInvalidError
           (''Error encountered attempting to instantiate the BootstraplessSynthesizer with the ''
            @ ''specified deployment config: '' @ m)), w)) \<and>
   (app_class b ctx = Inr a \<and> synthesizer_class b (synthesizer_config b) = Inl e \<and>
    (\<forall>m. e \<noteq> TypeError m) \<longrightarrow>
      Bootstrapless_build_template b sc ctx ud w = (Inl e, w))"
proof (intro conjI impI)
  assume "app_class b ctx = Inr a \<and> synthesizer_class b (synthesizer_config b) = Inl (TypeError m)"
  then show "Bootstrapless_build_template b sc ctx ud w =
        (Inl (TemplateHandlerArgumentsInvalidError
           (''Error encountered attempting to instantiate the BootstraplessSynthesizer with the ''
            @ ''specified deployment config: '' @ m)), w)"
    by (simp add: Bootstrapless_build_template_def in_process_build_template_def
          Bootstrapless_synthesize_def)
next
  assume a: "app_class b ctx = Inr a \<and> synthesizer_class b (synthesizer_config b) = Inl e \<and>
    (\<forall>m. e \<noteq> TypeError m)"
  then show "Bootstrapless_build_template b sc ctx ud w = (Inl e, w)"
    by (cases e)
       (simp_all add: Bootstrapless_build_template_def in_process_build_template_def
          Bootstrapless_synthesize_def)
qed

theorem bootstrapless_invalid_arguments_witness:
  "Bootstrapless_build_template (example_bootstrapless typeerror_synthesizer_class)
     (example_stack_class (example_assembly (example_manifest [] []))) None JNull example_world
   = (Inl (TemplateHandlerArgumentsInvalidError
        (''Error encountered attempting to instantiate the BootstraplessSynthesizer with the ''
         @ ''specified deployment config: __init__() got an unexpected keyword argument bucket'')),
      example_world) \<and>
   calls example_world = [] \<and>
   Bootstrapless_build_template (example_bootstrapless jsii_synthesizer_class)
     (example_stack_class (example_assembly (example_manifest [] []))) None JNull example_world
   = (Inl (OtherError ''JSIIError: Unable to deserialize value as array<string>''), example_world)"
proof -
  let ?sc = "example_stack_class (example_assembly (example_manifest [] []))"
  have app: "app_class (example_bootstrapless cls) None = Inr (App (Inr \<lparr>artifacts = []\<rparr>))" for cls
    by (simp add: example_bootstrapless_def)
  have t: "synthesizer_class (example_bootstrapless typeerror_synthesizer_class)
             (synthesizer_config (example_bootstrapless typeerror_synthesizer_class))
           = Inl (TypeError ''__init__() got an unexpected keyword argument bucket'')"
    by (simp add: example_bootstrapless_def typeerror_synthesizer_class_def)
  have j: "synthesizer_class (example_bootstrapless jsii_synthesizer_class)
             (synthesizer_config (example_bootstrapless jsii_synthesizer_class))
           = Inl (OtherError ''JSIIError: Unable to deserialize value as array<string>'')"
    by (simp add: example_bootstrapless_def jsii_synthesizer_class_def)
  have nt: "\<forall>m. OtherError ''JSIIError: Unable to deserialize value as array<string>'' \<noteq> TypeError m"
    by simp
  have s1: "Bootstrapless_build_template (example_bootstrapless typeerror_synthesizer_class)
     ?sc None JNull example_world
   = (Inl (TemplateHandlerArgumentsInvalidError
        (''Error encountered attempting to instantiate the BootstraplessSynthesizer with the ''
         @ ''specified deployment config: '' @ ''__init__() got an unexpected keyword argument bucket'')),
      example_world)"
    using app t
      bootstrapless_invalid_arguments [where b = "example_bootstrapless typeerror_synthesizer_class"
        and ctx = None and a = "App (Inr \<lparr>artifacts = []\<rparr>)" and sc = ?sc and ud = JNull
        and w = example_world and m = "''__init__() got an unexpected keyword argument bucket''",
        THEN conjunct1]
    by simp
  have s2: "Bootstrapless_build_template (example_bootstrapless jsii_synthesizer_class)
     ?sc None JNull example_world
   = (Inl (OtherError ''JSIIError: Unable to deserialize value as array<string>''), example_world)"
    using app j nt
      bootstrapless_invalid_arguments [where b = "example_bootstrapless jsii_synthesizer_class"
        and ctx = None and a = "App (Inr \<lparr>artifacts = []\<rparr>)" and sc = ?sc and ud = JNull
        and w = example_world
        and e = "OtherError ''JSIIError: Unable to deserialize value as array<string>''",
        THEN conjunct2]
    by simp
  have c: "calls example_world = []" by (simp add: example_world_def)
  from s1 s2 c show ?thesis by simp
qed

section \<open>The logical stack identifier\<close>

lemma command_loop_prefix: "prefix cmd (command_loop cmd cx)"
proof (induction cmd cx rule: command_loop.induct)
  case (1 cmd)
  show ?case by simp
next
  case (2 cmd key val rest)
  then show ?case by (auto dest: append_prefixD)
qed

lemma only_template_keys:
  "NonPython_only_asset_is_template j sid = Inr True \<Longrightarrow>
     map fst (manifest_files j) = [sid @ ''.template.json'']"
proof (cases j)
  case (JObject d)
  assume t: "NonPython_only_asset_is_template j sid = Inr True"
  show ?thesis
  proof (cases "map_of d ''files''")
    case None
    with t JObject show ?thesis by (simp add: dict_get_def split: if_splits)
  next
    case (Some v)
    with t JObject show ?thesis
      by (cases v) (simp_all add: dict_get_def split: if_splits)
  qed
qed simp_all

lemma stack_templates_mem:
  "t \<in> set (stack_templates xs name) \<Longrightarrow> CloudFormationStackArtifact name t \<in> set xs"
  by (induction xs name rule: stack_templates.induct) (auto split: if_splits)

lemma get_template_artifact:
  "Bootstrapped_get_template ca = Inr t \<Longrightarrow>
     CloudFormationStackArtifact STACK_LOGICAL_ID t \<in> set (artifacts ca)"
proof -
  assume a: "Bootstrapped_get_template ca = Inr t"
  then have "stack_templates (artifacts ca) STACK_LOGICAL_ID = [t]"
    by (simp add: Bootstrapped_get_template_def get_stack_by_name_def split: list.splits)
  then have "t \<in> set (stack_templates (artifacts ca) STACK_LOGICAL_ID)" by simp
  then show ?thesis by (rule stack_templates_mem)
qed

lemma body_template_file:
  "NonPython_build_template_body n p cx sid d w0 = (Inr t, w2) \<Longrightarrow>
     fs_files (fs w2) (Path d (sid @ ''.template.json'')) = Some (Document t)"
proof -
  assume "NonPython_build_template_body n p cx sid d w0 = (Inr t, w2)"
  then have "NonPython_get_template (Path d (sid @ ''.template.json'')) w2 = Inr t"
    by (auto simp: NonPython_body_success)
  then show ?thesis
    by (auto simp: NonPython_get_template_def open_read_def
        split: if_splits option.splits sum.splits elim: json_load.elims)
qed

lemma manifest_document_read:
  "NonPython_get_assets_manifest f w = Inr j \<Longrightarrow> fs_files (fs w) f = Some (Document j)"
  by (auto simp: NonPython_get_assets_manifest_def open_read_def
      split: if_splits option.splits sum.splits elim: json_load.elims)

lemma publish_ok_cases:
  assumes "NonPython_publish n f sid v1 = (Inr (), v2)"
  shows "\<exists>j. fs_files (fs v1) f = Some (Document j) \<and>
           (NonPython_only_asset_is_template j sid = Inr True \<and> v2 = v1 \<or>
            NonPython_only_asset_is_template j sid = Inr False \<and>
            (\<exists>c. command c = ''npx cdk-assets -v publish --path '' @ f \<and>
                 calls v2 = calls v1 @ [c]))"
proof (cases "NonPython_get_assets_manifest f v1")
  case (Inl e)
  with assms show ?thesis by (simp add: NonPython_publish_def)
next
  case (Inr j)
  note man = this
  then have doc: "fs_files (fs v1) f = Some (Document j)" by (rule manifest_document_read)
  show ?thesis
  proof (cases "NonPython_only_asset_is_template j sid")
    case (Inl e)
    with assms man show ?thesis by (simp add: NonPython_publish_def)
  next
    case (Inr only)
    show ?thesis
    proof (cases only)
      case True
      with assms man Inr have "v2 = v1" by (simp add: NonPython_publish_def)
      with doc Inr True show ?thesis by auto
    next
      case False
      from publish_ok_calls [OF assms] have
        "calls v2 = calls v1 \<or>
         (\<exists>c. command c = ''npx cdk-assets -v publish --path '' @ f \<and> calls v2 = calls v1 @ [c])" .
      moreover have "calls v2 \<noteq> calls v1"
      proof -
        obtain r v where e: "NonPython_get_envs n v1 = (r, v)" by (cases "NonPython_get_envs n v1")
        have cv: "calls v = calls v1" using calls_NonPython_get_envs [of n v1] e by simp
        show ?thesis
        proof (cases r)
          case (Inl x)
          with assms man Inr False e show ?thesis by (simp add: NonPython_publish_def)
        next
          case (Inr envs)
          with assms man \<open>NonPython_only_asset_is_template j sid = Inr only\<close> False e
          have "v2 = snd (run_check (subprocess_run n)
                  \<lparr>command = ''npx cdk-assets -v publish --path '' @ f,
                   call_env = heap v ! envs, cwd = None\<rparr> v)"
            by (simp add: NonPython_publish_def)
          then show ?thesis using cv by (simp add: calls_run_check)
        qed
      qed
      ultimately show ?thesis using doc Inr False by auto
    qed
  qed
qed

lemma calls_NonPython_publish:
  "\<exists>xs. calls (snd (NonPython_publish n f sid v)) = calls v @ xs"
proof -
  obtain r u where e: "NonPython_get_envs n v = (r, u)" by (cases "NonPython_get_envs n v")
  have cu: "calls u = calls v" using calls_NonPython_get_envs [of n v] e by simp
  show ?thesis
    using e cu
    by (auto simp: NonPython_publish_def calls_run_check split: sum.splits bool.splits)
qed

lemma NonPython_build_first_call:
  assumes tmp: "mkdtemp w (fs w) = Inr d"
      and env: "NonPython_get_envs n (w\<lparr>fs := make_dir d (fs w)\<rparr>) = (Inr r, u)"
  shows "\<exists>c rest. command c = NonPython_create_command d cx sid \<and>
           calls (snd (NonPython_build_template n p cx sid w)) = calls w @ c # rest"
proof -
  let ?w0 = "w\<lparr>fs := make_dir d (fs w)\<rparr>"
  let ?c = "\<lparr>command = NonPython_create_command d cx sid, call_env = heap u ! r,
             cwd = Some (resolve u (path_parent p))\<rparr>"
  obtain res v1 where syn: "NonPython_synthesize n p d cx sid ?w0 = (res, v1)"
    by (cases "NonPython_synthesize n p d cx sid ?w0")
  have cu: "calls u = calls w" using calls_NonPython_get_envs [of n ?w0] env by simp
  from syn env have "v1 = snd (run_check (subprocess_run n) ?c u)"
    by (simp add: NonPython_synthesize_def Let_def)
  then have c1: "calls v1 = calls w @ [?c]" using cu by (simp add: calls_run_check)
  obtain xs where xs: "calls (snd (NonPython_publish n (Path d (sid @ ''.assets.json'')) sid v1))
                         = calls v1 @ xs"
    using calls_NonPython_publish by blast
  have "calls (snd (NonPython_build_template_body n p cx sid d ?w0)) = calls w @ ?c # []
        \<or> calls (snd (NonPython_build_template_body n p cx sid d ?w0)) = calls w @ ?c # xs"
    using syn c1 xs
    by (auto simp: NonPython_build_template_body_def Let_def split: sum.splits prod.splits)
  then have "\<exists>rest. calls (snd (NonPython_build_template n p cx sid w)) = calls w @ ?c # rest"
    using tmp
    by (auto simp: NonPython_build_template_def with_TemporaryDirectory_def split: prod.splits)
  then show ?thesis by (intro exI [of _ ?c]) simp
qed

lemma NonPython_build_success:
  assumes tmp: "mkdtemp w (fs w) = Inr d"
      and ok: "NonPython_build_template n p cx sid w = (Inr t, w2)"
  shows "\<exists>v1 v2 c j.
           NonPython_synthesize n p d cx sid (w\<lparr>fs := make_dir d (fs w)\<rparr>) = (Inr (), v1) \<and>
           command c = NonPython_create_command d cx sid \<and> calls v1 = calls w @ [c] \<and>
           fs_files (fs v1) (Path d (sid @ ''.assets.json'')) = Some (Document j) \<and>
           NonPython_publish n (Path d (sid @ ''.assets.json'')) sid v1 = (Inr (), v2) \<and>
           (NonPython_only_asset_is_template j sid = Inr True \<and> v2 = v1 \<or>
            NonPython_only_asset_is_template j sid = Inr False \<and>
            (\<exists>c'. command c' =
                    ''npx cdk-assets -v publish --path '' @ Path d (sid @ ''.assets.json'') \<and>
                  calls v2 = calls v1 @ [c'])) \<and>
           fs_files (fs v2) (Path d (sid @ ''.template.json'')) = Some (Document t) \<and>
           w2 = v2\<lparr>fs := rmtree d (fs v2)\<rparr>"
proof -
  let ?w0 = "w\<lparr>fs := make_dir d (fs w)\<rparr>"
  obtain r v2 where body: "NonPython_build_template_body n p cx sid d ?w0 = (r, v2)"
    by (cases "NonPython_build_template_body n p cx sid d ?w0")
  from tmp body ok have r: "r = Inr t" and w2: "w2 = v2\<lparr>fs := rmtree d (fs v2)\<rparr>"
    by (simp_all add: NonPython_build_template_def with_TemporaryDirectory_def)
  from body r obtain v1 where
    syn: "NonPython_synthesize n p d cx sid ?w0 = (Inr (), v1)" and
    pub: "NonPython_publish n (Path d (sid @ ''.assets.json'')) sid v1 = (Inr (), v2)"
    by (auto simp: NonPython_body_success)
  from synthesize_ok_calls [OF syn] obtain c where
    c: "command c = NonPython_create_command d cx sid" "calls v1 = calls w @ [c]"
    by auto
  from publish_ok_cases [OF pub] obtain j where
    j: "fs_files (fs v1) (Path d (sid @ ''.assets.json'')) = Some (Document j)"
       "NonPython_only_asset_is_template j sid = Inr True \<and> v2 = v1 \<or>
        NonPython_only_asset_is_template j sid = Inr False \<and>
        (\<exists>c'. command c' =
                ''npx cdk-assets -v publish --path '' @ Path d (sid @ ''.assets.json'') \<and>
              calls v2 = calls v1 @ [c'])"
    by auto
  from body r have tf: "fs_files (fs v2) (Path d (sid @ ''.template.json'')) = Some (Document t)"
    by (auto intro: body_template_file)
  from syn c j pub tf w2 show ?thesis by blast
qed

lemma only_template_keys_in_process:
  "Bootstrapped_only_asset_is_template m = Inr True \<Longrightarrow>
     \<exists>fl. files (contents m) = Some fl \<and> map fst fl = [STACK_LOGICAL_ID @ ''.template.json'']"
  by (auto simp: Bootstrapped_only_asset_is_template_def Let_def split: if_splits option.splits)

lemma calls_Bootstrapped_get_envs: "calls (snd (Bootstrapped_get_envs b w)) = calls w"
  by (simp add: get_envs_defs split: option.splits sum.splits)

lemma Bootstrapped_publish_ok_cases:
  assumes "Bootstrapped_publish b ca w = (Inr (), w')"
  shows "\<exists>m. Bootstrapped_get_assets_manifest ca = Inr m \<and>
           (Bootstrapped_only_asset_is_template m = Inr True \<and> w' = w \<or>
            Bootstrapped_only_asset_is_template m = Inr False \<and>
            (\<exists>c. command c = ''npx cdk-assets -v publish --path '' @ file m \<and>
                 calls w' = calls w @ [c]))"
proof (cases "Bootstrapped_get_assets_manifest ca")
  case (Inl e)
  with assms show ?thesis by (simp add: Bootstrapped_publish_def)
next
  case (Inr m)
  note man = this
  show ?thesis
  proof (cases "Bootstrapped_only_asset_is_template m")
    case (Inl e)
    with assms man show ?thesis by (simp add: Bootstrapped_publish_def)
  next
    case (Inr only)
    show ?thesis
    proof (cases only)
      case True
      with assms man Inr show ?thesis by (simp add: Bootstrapped_publish_def)
    next
      case False
      obtain r v where e: "Bootstrapped_get_envs b w = (r, v)" by (cases "Bootstrapped_get_envs b w")
      have cv: "calls v = calls w" using calls_Bootstrapped_get_envs [of b w] e by simp
      show ?thesis
      proof (cases r)
        case (Inl x)
        with assms man Inr False e show ?thesis by (simp add: Bootstrapped_publish_def)
      next
        case (Inr envs)
        let ?c = "\<lparr>command = ''npx cdk-assets -v publish --path '' @ file m,
                   call_env = heap v ! envs, cwd = None\<rparr>"
        from assms man \<open>Bootstrapped_only_asset_is_template m = Inr only\<close> False e Inr
        have "w' = snd (run_check (subprocess_run b) ?c v)"
          by (simp add: Bootstrapped_publish_def Bootstrapped_run_command_def)
        then have "calls w' = calls w @ [?c]" using cv by (simp add: calls_run_check)
        with man \<open>Bootstrapped_only_asset_is_template m = Inr only\<close> False show ?thesis
          by (intro exI [of _ m]) auto
      qed
    qed
  qed
qed

lemma in_process_build_success:
  assumes "in_process_build_template synthesize Bootstrapped_publish b sc ctx ud w = (Inr t, w')"
  shows "\<exists>ca m. synthesize b sc ctx ud = Inr ca \<and>
           CloudFormationStackArtifact STACK_LOGICAL_ID t \<in> set (artifacts ca) \<and>
           Bootstrapped_get_assets_manifest ca = Inr m \<and>
           (Bootstrapped_only_asset_is_template m = Inr True \<and> w' = w \<or>
            Bootstrapped_only_asset_is_template m = Inr False \<and>
            (\<exists>c. command c = ''npx cdk-assets -v publish --path '' @ file m \<and>
                 calls w' = calls w @ [c]))"
proof -
  from assms obtain ca where
    syn: "synthesize b sc ctx ud = Inr ca" and
    pub: "Bootstrapped_publish b ca w = (Inr (), w')" and
    tpl: "Bootstrapped_get_template ca = Inr t"
    by (auto simp: in_process_build_template_success)
  from tpl have "CloudFormationStackArtifact STACK_LOGICAL_ID t \<in> set (artifacts ca)"
    by (rule get_template_artifact)
  with syn Bootstrapped_publish_ok_cases [OF pub] show ?thesis by blast
qed

text \<open>
  C8, as stated, fails: the out-of-process builder synthesizes the stack and reads the
  manifest and the template under the identifier its caller passes, here
  \<^verbatim>\<open>MyStack\<close>, not under \<open>STACK_LOGICAL_ID\<close>.
\<close>

theorem stack_logical_id_counterexample:
  "fst (NonPython_build_template
          (example_non_python None 0
             (example_output (example_manifest_document [(''MyStack.template.json'', JNull)] [])))
          ''app/cdk.json'' [] ''MyStack'' example_world) = Inr example_template \<and>
   map command (calls (snd (NonPython_build_template
          (example_non_python None 0
             (example_output (example_manifest_document [(''MyStack.template.json'', JNull)] [])))
          ''app/cdk.json'' [] ''MyStack'' example_world)))
     = [''npx cdk synth MyStack -o /tmp/tmpa1 ''] \<and>
   ''MyStack'' \<noteq> STACK_LOGICAL_ID"
  by (simp add: NonPython_build_template_def with_TemporaryDirectory_def
        NonPython_build_template_body_def model_defs get_envs_defs example_defs)

text \<open>
  C8, amended. The in-process builders use the constant \<^verbatim>\<open>CDKStack\<close> in every
  build: the stack class is instantiated under no other identifier (two stack classes
  that agree under \<open>STACK_LOGICAL_ID\<close> give the same build), the only-template
  classification expects the key \<^verbatim>\<open>CDKStack.template.json\<close>, and a build that returns
  a template has synthesized an assembly in which that template belongs to the stack
  artifact named \<open>STACK_LOGICAL_ID\<close>, and has decided about publishing on that
  assembly's manifest. The out-of-process builder uses the identifier given to
  \<^verbatim>\<open>build_template\<close>: the synth command begins \<^verbatim>\<open>npx cdk synth <id> -o <dir>\<close> and
  is the first subprocess of every build whose credential environment is derived; a
  build that returns a template has found the manifest document at
  \<^verbatim>\<open>Path(output_dir, '<id>.assets.json')\<close> after that command, has skipped publishing
  exactly when that document's only file key is \<^verbatim>\<open><id>.template.json\<close> with no image
  asset and has otherwise published that path, and returns the document at
  \<^verbatim>\<open>Path(output_dir, '<id>.template.json')\<close>.
\<close>

theorem stack_logical_id_per_strategy:
  "STACK_LOGICAL_ID = ''CDKStack'' \<and>
   ((\<forall>app u s. sc app STACK_LOGICAL_ID u s = sc' app STACK_LOGICAL_ID u s) \<longrightarrow>
      Bootstrapped_build_template b sc ctx ud w = Bootstrapped_build_template b sc' ctx ud w) \<and>
   ((\<forall>app u s. scl app STACK_LOGICAL_ID u s = scl' app STACK_LOGICAL_ID u s) \<longrightarrow>
      Bootstrapless_build_template bl scl ctx ud w = Bootstrapless_build_template bl scl' ctx ud w) \<and>
   (Bootstrapped_only_asset_is_template m = Inr True \<longrightarrow>
      (\<exists>fl. files (contents m) = Some fl \<and>
         map fst fl = [STACK_LOGICAL_ID @ ''.template.json''])) \<and>
   (Bootstrapped_build_template b sc ctx ud w = (Inr t, w') \<longrightarrow>
      (\<exists>ca am. Bootstrapped_synthesize b sc ctx ud = Inr ca \<and>
         CloudFormationStackArtifact STACK_LOGICAL_ID t \<in> set (artifacts ca) \<and>
         Bootstrapped_get_assets_manifest ca = Inr am \<and>
         (Bootstrapped_only_asset_is_template am = Inr True \<and> w' = w \<or>
          Bootstrapped_only_asset_is_template am = Inr False \<and>
          (\<exists>c. command c = ''npx cdk-assets -v publish --path '' @ file am \<and>
               calls w' = calls w @ [c])))) \<and>
   (Bootstrapless_build_template bl scl ctx ud w = (Inr t, w') \<longrightarrow>
      (\<exists>ca am. Bootstrapless_synthesize bl scl ctx ud = Inr ca \<and>
         CloudFormationStackArtifact STACK_LOGICAL_ID t \<in> set (artifacts ca) \<and>
         Bootstrapped_get_assets_manifest ca = Inr am \<and>
         (Bootstrapped_only_asset_is_template am = Inr True \<and> w' = w \<or>
          Bootstrapped_only_asset_is_template am = Inr False \<and>
          (\<exists>c. command c = ''npx cdk-assets -v publish --path '' @ file am \<and>
               calls w' = calls w @ [c])))) \<and>
   prefix (''npx cdk synth '' @ sid @ '' -o '' @ d @ '' '') (NonPython_create_command d cx sid) \<and>
   (NonPython_only_asset_is_template j sid = Inr True \<longrightarrow>
      map fst (manifest_files j) = [sid @ ''.template.json'']) \<and>
   (mkdtemp w (fs w) = Inr d \<and>
    NonPython_get_envs n (w\<lparr>fs := make_dir d (fs w)\<rparr>) = (Inr r, u) \<longrightarrow>
      (\<exists>c rest. command c = NonPython_create_command d cx sid \<and>
         calls (snd (NonPython_build_template n p cx sid w)) = calls w @ c # rest)) \<and>
   (mkdtemp w (fs w) = Inr d \<and> NonPython_build_template n p cx sid w = (Inr t', w2) \<longrightarrow>
      (\<exists>v1 v2 c aj.
         NonPython_synthesize n p d cx sid (w\<lparr>fs := make_dir d (fs w)\<rparr>) = (Inr (), v1) \<and>
         command c = NonPython_create_command d cx sid \<and> calls v1 = calls w @ [c] \<and>
         fs_files (fs v1) (Path d (sid @ ''.assets.json'')) = Some (Document aj) \<and>
         NonPython_publish n (Path d (sid @ ''.assets.json'')) sid v1 = (Inr (), v2) \<and>
         (NonPython_only_asset_is_template aj sid = Inr True \<and> v2 = v1 \<or>
          NonPython_only_asset_is_template aj sid = Inr False \<and>
          (\<exists>c'. command c' =
                  ''npx cdk-assets -v publish --path '' @ Path d (sid @ ''.assets.json'') \<and>
                calls v2 = calls v1 @ [c'])) \<and>
         fs_files (fs v2) (Path d (sid @ ''.template.json'')) = Some (Document t') \<and>
         w2 = v2\<lparr>fs := rmtree d (fs v2)\<rparr>))"
proof -
  have id: "STACK_LOGICAL_ID = ''CDKStack''" by (simp add: STACK_LOGICAL_ID_def)
  have ext: "(\<forall>app u s. sc app STACK_LOGICAL_ID u s = sc' app STACK_LOGICAL_ID u s) \<longrightarrow>
      Bootstrapped_build_template b sc ctx ud w = Bootstrapped_build_template b sc' ctx ud w"
    by (simp add: Bootstrapped_build_template_def in_process_build_template_def
          Bootstrapped_synthesize_def cong: sum.case_cong)
  have extl: "(\<forall>app u s. scl app STACK_LOGICAL_ID u s = scl' app STACK_LOGICAL_ID u s) \<longrightarrow>
      Bootstrapless_build_template bl scl ctx ud w = Bootstrapless_build_template bl scl' ctx ud w"
    by (simp add: Bootstrapless_build_template_def in_process_build_template_def
          Bootstrapless_synthesize_def cong: sum.case_cong)
  note keys = only_template_keys_in_process [of m]
  note build = in_process_build_success
    [of Bootstrapped_synthesize b sc ctx ud w t w', folded Bootstrapped_build_template_def]
  note buildl = in_process_build_success
    [of Bootstrapless_synthesize bl scl ctx ud w t w', folded Bootstrapless_build_template_def]
  have cmd: "prefix (''npx cdk synth '' @ sid @ '' -o '' @ d @ '' '')
               (NonPython_create_command d cx sid)"
    unfolding NonPython_create_command_def by (rule command_loop_prefix)
  note keysj = only_template_keys [of j sid]
  note first = NonPython_build_first_call [of w d n r u cx sid p]
  note success = NonPython_build_success [of w d n p cx sid t' w2]
  show ?thesis
    using id ext extl keys build buildl cmd keysj first success
    by (intro conjI impI) (assumption | ((elim conjE)?, blast))+
qed

theorem stack_logical_id_per_strategy_witness:
  "Bootstrapped_build_template (example_bootstrapped None)
     (example_stack_class (example_assembly (example_manifest [(''CDKStack.template.json'', JNull)] [])))
     None JNull example_world
   = Bootstrapped_build_template (example_bootstrapped None)
     (lenient_stack_class (example_assembly (example_manifest [(''CDKStack.template.json'', JNull)] [])))
     None JNull example_world \<and>
   Bootstrapless_build_template (example_bootstrapless accepting_synthesizer_class)
     (example_stack_class (example_assembly (example_manifest [(''CDKStack.template.json'', JNull)] [])))
     None JNull example_world
   = Bootstrapless_build_template (example_bootstrapless accepting_synthesizer_class)
     (lenient_stack_class (example_assembly (example_manifest [(''CDKStack.template.json'', JNull)] [])))
     None JNull example_world \<and>
   (\<exists>fl. files (contents (example_manifest [(''CDKStack.template.json'', JNull)] [])) = Some fl \<and>
      map fst fl = [''CDKStack.template.json'']) \<and>
   (\<exists>ca. Bootstrapped_synthesize (example_bootstrapped None)
           (example_stack_class
              (example_assembly (example_manifest [(''CDKStack.template.json'', JNull)] [])))
           None JNull = Inr ca \<and>
         CloudFormationStackArtifact ''CDKStack'' example_template \<in> set (artifacts ca)) \<and>
   (\<exists>ca. Bootstrapless_synthesize (example_bootstrapless accepting_synthesizer_class)
           (example_stack_class
              (example_assembly (example_manifest [(''CDKStack.template.json'', JNull)] [])))
           None JNull = Inr ca \<and>
         CloudFormationStackArtifact ''CDKStack'' example_template \<in> set (artifacts ca)) \<and>
   map fst (manifest_files (example_manifest_document [(''MyStack.template.json'', JNull)] []))
     = [''MyStack.template.json''] \<and>
   (\<exists>c rest. command c = ''npx cdk synth MyStack -o /tmp/tmpa1 '' \<and>
      calls (snd (NonPython_build_template (example_non_python None 1 Map.empty)
                    ''app/cdk.json'' [] ''MyStack'' example_world)) = c # rest) \<and>
   (\<exists>(v1::world) v2 c aj.
      command c = ''npx cdk synth MyStack -o /tmp/tmpa1 '' \<and> calls v1 = [c] \<and>
      fs_files (fs v1) ''/tmp/tmpa1/MyStack.assets.json'' = Some (Document aj) \<and>
      fs_files (fs v2) ''/tmp/tmpa1/MyStack.template.json'' = Some (Document example_template) \<and>
      snd (NonPython_build_template
             (example_non_python None 0
                (example_output (example_manifest_document [(''MyStack.template.json'', JNull)] [])))
             ''app/cdk.json'' [] ''MyStack'' example_world)
        = v2\<lparr>fs := rmtree ''/tmp/tmpa1'' (fs v2)\<rparr>)"
proof -
  let ?b = "example_bootstrapped None"
  let ?bl = "example_bootstrapless accepting_synthesizer_class"
  let ?m = "example_manifest [(''CDKStack.template.json'', JNull)] []"
  let ?a = "example_assembly ?m"
  let ?j = "example_manifest_document [(''MyStack.template.json'', JNull)] []"
  let ?n = "example_non_python None 0 (example_output ?j)"
  let ?n1 = "example_non_python None 1 Map.empty"
  let ?w0 = "example_world\<lparr>fs := make_dir ''/tmp/tmpa1'' (fs example_world)\<rparr>"
  have agree: "\<forall>app u s. example_stack_class ?a app STACK_LOGICAL_ID u s
                 = lenient_stack_class ?a app STACK_LOGICAL_ID u s"
    by (simp add: example_stack_class_def lenient_stack_class_def STACK_LOGICAL_ID_def)
  have only: "Bootstrapped_only_asset_is_template ?m = Inr True"
    by (simp add: model_defs example_defs)
  have bb: "Bootstrapped_build_template ?b (example_stack_class ?a) None JNull example_world
              = (Inr example_template, example_world)"
    by (simp add: Bootstrapped_build_template_def in_process_build_template_def model_defs
          example_defs)
  have bbl: "Bootstrapless_build_template ?bl (example_stack_class ?a) None JNull example_world
              = (Inr example_template, example_world)"
    by (simp add: Bootstrapless_build_template_def in_process_build_template_def
          Bootstrapless_synthesize_def model_defs example_defs example_bootstrapless_def
          accepting_synthesizer_class_def)
  have onlyj: "NonPython_only_asset_is_template ?j ''MyStack'' = Inr True"
    by (simp add: model_defs example_defs)
  have tmp: "mkdtemp example_world (fs example_world) = Inr ''/tmp/tmpa1''"
    by (simp add: example_defs)
  have env1: "NonPython_get_envs ?n1 ?w0 = (Inr 1, snd (NonPython_get_envs ?n1 ?w0))"
    by (simp add: get_envs_defs example_defs make_dir_def)
  have nb: "NonPython_build_template ?n ''app/cdk.json'' [] ''MyStack'' example_world
              = (Inr example_template,
                 snd (NonPython_build_template ?n ''app/cdk.json'' [] ''MyStack'' example_world))"
    by (simp add: NonPython_build_template_def with_TemporaryDirectory_def
          NonPython_build_template_body_def model_defs get_envs_defs example_defs)
  have cmd: "NonPython_create_command ''/tmp/tmpa1'' [] ''MyStack''
               = ''npx cdk synth MyStack -o /tmp/tmpa1 ''"
    by (simp add: NonPython_create_command_def)
  have pa: "Path ''/tmp/tmpa1'' (''MyStack'' @ ''.assets.json'') = ''/tmp/tmpa1/MyStack.assets.json''"
    and pt: "Path ''/tmp/tmpa1'' (''MyStack'' @ ''.template.json'') = ''/tmp/tmpa1/MyStack.template.json''"
    by (simp_all add: model_defs)
  have cw: "calls example_world = []" by (simp add: example_defs)
  note inst = stack_logical_id_per_strategy
    [where sc = "example_stack_class ?a" and sc' = "lenient_stack_class ?a"
       and scl = "example_stack_class ?a" and scl' = "lenient_stack_class ?a"
       and b = ?b and bl = ?bl and ctx = None and ud = JNull and w = example_world
       and m = ?m and t = example_template and w' = example_world
       and j = ?j and sid = "''MyStack''" and d = "''/tmp/tmpa1''" and cx = "[]"
       and p = "''app/cdk.json''"]
  note fail_inst = inst [where n = ?n1 and r = 1 and u = "snd (NonPython_get_envs ?n1 ?w0)"]
  note ok_inst = inst [where n = ?n and t' = example_template
       and ?w2.0 = "snd (NonPython_build_template ?n ''app/cdk.json'' [] ''MyStack'' example_world)"]
  have c2: "Bootstrapped_build_template ?b (example_stack_class ?a) None JNull example_world
              = Bootstrapped_build_template ?b (lenient_stack_class ?a) None JNull example_world"
    using agree ok_inst by blast
  have c3: "Bootstrapless_build_template ?bl (example_stack_class ?a) None JNull example_world
              = Bootstrapless_build_template ?bl (lenient_stack_class ?a) None JNull example_world"
    using agree ok_inst by blast
  have c4: "\<exists>fl. files (contents ?m) = Some fl \<and> map fst fl = [''CDKStack.template.json'']"
    using only ok_inst by (simp add: STACK_LOGICAL_ID_def)
  have c5: "\<exists>ca. Bootstrapped_synthesize ?b (example_stack_class ?a) None JNull = Inr ca \<and>
         CloudFormationStackArtifact ''CDKStack'' example_template \<in> set (artifacts ca)"
    using bb ok_inst [THEN conjunct2, THEN conjunct2, THEN conjunct2, THEN conjunct2, THEN conjunct1]
    unfolding STACK_LOGICAL_ID_def by blast
  have c6: "\<exists>ca. Bootstrapless_synthesize ?bl (example_stack_class ?a) None JNull = Inr ca \<and>
         CloudFormationStackArtifact ''CDKStack'' example_template \<in> set (artifacts ca)"
    using bbl ok_inst [THEN conjunct2, THEN conjunct2, THEN conjunct2, THEN conjunct2,
      THEN conjunct2, THEN conjunct1]
    unfolding STACK_LOGICAL_ID_def by blast
  have c8: "map fst (manifest_files ?j) = [''MyStack.template.json'']"
    using onlyj ok_inst by simp
  have c9: "\<exists>c rest. command c = ''npx cdk synth MyStack -o /tmp/tmpa1 '' \<and>
      calls (snd (NonPython_build_template ?n1 ''app/cdk.json'' [] ''MyStack'' example_world)) = c # rest"
    using tmp env1 cmd cw
      fail_inst [THEN conjunct2, THEN conjunct2, THEN conjunct2, THEN conjunct2, THEN conjunct2,
        THEN conjunct2, THEN conjunct2, THEN conjunct2, THEN conjunct1]
    by simp
  have c10: "\<exists>(v1::world) v2 c aj.
      command c = ''npx cdk synth MyStack -o /tmp/tmpa1 '' \<and> calls v1 = [c] \<and>
      fs_files (fs v1) ''/tmp/tmpa1/MyStack.assets.json'' = Some (Document aj) \<and>
      fs_files (fs v2) ''/tmp/tmpa1/MyStack.template.json'' = Some (Document example_template) \<and>
      snd (NonPython_build_template ?n ''app/cdk.json'' [] ''MyStack'' example_world)
        = v2\<lparr>fs := rmtree ''/tmp/tmpa1'' (fs v2)\<rparr>"
  proof -
    note last = ok_inst [THEN conjunct2, THEN conjunct2, THEN conjunct2, THEN conjunct2,
        THEN conjunct2, THEN conjunct2, THEN conjunct2, THEN conjunct2, THEN conjunct2]
    from mp [OF last conjI [OF tmp nb]] obtain v1 v2 c aj where
      "command c = NonPython_create_command ''/tmp/tmpa1'' [] ''MyStack''"
      "calls (v1::world) = calls example_world @ [c]"
      "fs_files (fs v1) (Path ''/tmp/tmpa1'' (''MyStack'' @ ''.assets.json'')) = Some (Document aj)"
      "fs_files (fs v2) (Path ''/tmp/tmpa1'' (''MyStack'' @ ''.template.json''))
         = Some (Document example_template)"
      "snd (NonPython_build_template ?n ''app/cdk.json'' [] ''MyStack'' example_world)
         = v2\<lparr>fs := rmtree ''/tmp/tmpa1'' (fs v2)\<rparr>"
      by blast
    then show ?thesis
      using cmd cw pa pt
      by (intro exI [of _ v1] exI [of _ v2] exI [of _ c] exI [of _ aj]) simp
  qed
  from c2 c3 c4 c5 c6 c8 c9 c10 show ?thesis by blast
qed

end
